theory Spec2Isabelle
  imports Complex_Main
begin

section \<open>The PID step size controller of \<open>pid_controller.py\<close>\<close>

text \<open>
  The controller works on batched tensors of floating-point numbers.

  \<^item> A float is a finite number, an infinity or a NaN (\<open>fl\<close>). The operations follow
    IEEE 754 on the infinities and on NaN. On finite operands an arithmetic operation
    gives the exact result rounded by a function \<open>rnd\<close>, which is a parameter: it stands
    for the rounding of the tensors' dtype, overflow to an infinity and underflow to zero
    included. The properties are proved for every rounding function that is monotone,
    symmetric, keeps zero and keeps the values it produces (\<open>rounding\<close>). There is one
    zero: the sign of a zero is not modelled, and a division by zero takes it as \<open>+0\<close>.
  \<^item> A tensor of shape \<open>(batch)\<close> (\<open>TimeTensor\<close>, \<open>NormTensor\<close>, \<open>AcceptTensor\<close>,
    \<open>StatusTensor\<close>) is a list with one entry per batch element; a tensor of shape
    \<open>(batch, features)\<close> (\<open>DataTensor\<close>) is a list of rows; a tensor with no dimension
    (\<open>atol\<close>, \<open>rtol\<close>, \<open>almost_zero\<close>, the bounds of the state) is a float.
  \<^item> An elementwise operation on two tensors of different shapes is the error
    \<open>ShapeError\<close>: the tensors of a call have the shapes their annotations give them,
    and broadcasting between other shapes is left out.
  \<^item> What Python raises is an error value: \<open>ZeroDivisionError\<close> for a division of
    Python numbers by the integer zero, \<open>AssertionError\<close> for a failed \<open>assert\<close>.
  \<^item> The gains, the safety factor and the factor bounds of the controller are finite
    Python floats, written as real numbers; the quotients of the gains by the order are
    taken exactly. A constant of the source (\<open>1e-5\<close>, \<open>0.01\<close>) is the decimal number.
  \<^item> The tensors of a call have one dtype: a cast \<open>.to(dtype=...)\<close> changes nothing
    and is left out. \<open>torch.add(a, b, alpha=r)\<close> is \<open>a + r * b\<close> and
    \<open>torch.addcmul(a, b, c)\<close> is \<open>a + b * c\<close>, each operation rounded.
\<close>

subsection \<open>Floats\<close>

datatype fl = Fin real | PInf | NInf | NaN

type_synonym rounding = "real \<Rightarrow> fl"

fun isfinite :: "fl \<Rightarrow> bool" where
  "isfinite (Fin x) = True"
| "isfinite _ = False"

fun isnan :: "fl \<Rightarrow> bool" where
  "isnan NaN = True"
| "isnan _ = False"

text \<open>\<open>x < y\<close> and \<open>x <= y\<close>: false when an operand is NaN.\<close>

fun fl_lt :: "fl \<Rightarrow> fl \<Rightarrow> bool" where
  "fl_lt NaN _ = False"
| "fl_lt _ NaN = False"
| "fl_lt (Fin a) (Fin b) = (a < b)"
| "fl_lt _ NInf = False"
| "fl_lt NInf _ = True"
| "fl_lt PInf _ = False"
| "fl_lt _ PInf = True"

fun fl_le :: "fl \<Rightarrow> fl \<Rightarrow> bool" where
  "fl_le NaN _ = False"
| "fl_le _ NaN = False"
| "fl_le (Fin a) (Fin b) = (a \<le> b)"
| "fl_le NInf _ = True"
| "fl_le _ NInf = False"
| "fl_le _ PInf = True"
| "fl_le PInf _ = False"

fun fl_neg :: "fl \<Rightarrow> fl" where
  "fl_neg (Fin a) = Fin (- a)"
| "fl_neg PInf = NInf"
| "fl_neg NInf = PInf"
| "fl_neg NaN = NaN"

fun fl_abs :: "fl \<Rightarrow> fl" where
  "fl_abs (Fin a) = Fin \<bar>a\<bar>"
| "fl_abs PInf = PInf"
| "fl_abs NInf = PInf"
| "fl_abs NaN = NaN"

text \<open>\<open>torch.maximum\<close> and \<open>torch.minimum\<close>: NaN when an operand is NaN.\<close>

definition fl_max :: "fl \<Rightarrow> fl \<Rightarrow> fl" where
  "fl_max a b = (if isnan a \<or> isnan b then NaN else if fl_lt a b then b else a)"

definition fl_min :: "fl \<Rightarrow> fl \<Rightarrow> fl" where
  "fl_min a b = (if isnan a \<or> isnan b then NaN else if fl_lt b a then b else a)"

fun fl_add :: "rounding \<Rightarrow> fl \<Rightarrow> fl \<Rightarrow> fl" where
  "fl_add rnd NaN _ = NaN"
| "fl_add rnd _ NaN = NaN"
| "fl_add rnd (Fin a) (Fin b) = rnd (a + b)"
| "fl_add rnd PInf NInf = NaN"
| "fl_add rnd NInf PInf = NaN"
| "fl_add rnd PInf _ = PInf"
| "fl_add rnd _ PInf = PInf"
| "fl_add rnd NInf _ = NInf"
| "fl_add rnd _ NInf = NInf"


fun fl_mul :: "rounding \<Rightarrow> fl \<Rightarrow> fl \<Rightarrow> fl" where
  "fl_mul rnd NaN _ = NaN"
| "fl_mul rnd _ NaN = NaN"
| "fl_mul rnd (Fin a) (Fin b) = rnd (a * b)"
| "fl_mul rnd (Fin a) PInf = (if a = 0 then NaN else if 0 < a then PInf else NInf)"
| "fl_mul rnd (Fin a) NInf = (if a = 0 then NaN else if 0 < a then NInf else PInf)"
| "fl_mul rnd PInf (Fin b) = (if b = 0 then NaN else if 0 < b then PInf else NInf)"
| "fl_mul rnd NInf (Fin b) = (if b = 0 then NaN else if 0 < b then NInf else PInf)"
| "fl_mul rnd PInf PInf = PInf"
| "fl_mul rnd PInf NInf = NInf"
| "fl_mul rnd NInf PInf = NInf"
| "fl_mul rnd NInf NInf = PInf"

fun fl_div :: "rounding \<Rightarrow> fl \<Rightarrow> fl \<Rightarrow> fl" where
  "fl_div rnd NaN _ = NaN"
| "fl_div rnd _ NaN = NaN"
| "fl_div rnd (Fin a) (Fin b) =
     (if b = 0 then (if a = 0 then NaN else if 0 < a then PInf else NInf)
      else rnd (a / b))"
| "fl_div rnd (Fin a) PInf = Fin 0"
| "fl_div rnd (Fin a) NInf = Fin 0"
| "fl_div rnd PInf (Fin b) = (if b < 0 then NInf else PInf)"
| "fl_div rnd NInf (Fin b) = (if b < 0 then PInf else NInf)"
| "fl_div rnd PInf PInf = NaN"
| "fl_div rnd PInf NInf = NaN"
| "fl_div rnd NInf PInf = NaN"
| "fl_div rnd NInf NInf = NaN"

text \<open>
  \<open>x ** e\<close> for a float \<open>x\<close> and a finite Python float \<open>e\<close>, as C's \<open>pow\<close>: the
  power zero is one; a positive base has \<open>exp (e * ln x)\<close>; zero to a positive power
  is zero and to a negative power is an infinity; a negative base has a value at an
  integer exponent and is a NaN otherwise.
\<close>

fun fl_pow :: "rounding \<Rightarrow> fl \<Rightarrow> real \<Rightarrow> fl" where
  "fl_pow rnd (Fin b) e =
     (if e = 0 then Fin 1
      else if 0 < b then rnd (b powr e)
      else if b = 0 then (if 0 < e then Fin 0 else PInf)
      else if of_int \<lfloor>e\<rfloor> = e then rnd (b powi \<lfloor>e\<rfloor>)
      else NaN)"
| "fl_pow rnd PInf e = (if e = 0 then Fin 1 else if 0 < e then PInf else Fin 0)"
| "fl_pow rnd NInf e =
     (if e = 0 then Fin 1
      else if 0 < e then (if of_int \<lfloor>e\<rfloor> = e \<and> odd \<lfloor>e\<rfloor> then NInf else PInf)
      else Fin 0)"
| "fl_pow rnd NaN e = (if e = 0 then Fin 1 else NaN)"

text \<open>\<open>torch.clamp(x, min, max)\<close> is \<open>min(max(x, min), max)\<close>; a NaN stays a NaN.\<close>

definition torch_clamp :: "fl \<Rightarrow> fl \<Rightarrow> fl \<Rightarrow> fl" where
  "torch_clamp x lo hi = fl_min (fl_max x lo) hi"

text \<open>With optional bounds: a bound that is \<open>None\<close> is not applied.\<close>

definition torch_clamp_opt :: "fl \<Rightarrow> fl option \<Rightarrow> fl option \<Rightarrow> fl" where
  "torch_clamp_opt x lo hi =
     (let x1 = (case lo of None \<Rightarrow> x | Some l \<Rightarrow> fl_max x l)
      in (case hi of None \<Rightarrow> x1 | Some h \<Rightarrow> fl_min x1 h))"

text \<open>
  What the proofs use of a rounding function: it is never NaN, it is monotone and
  symmetric, it keeps zero, and it keeps a value it has produced.
\<close>

definition rounding :: "rounding \<Rightarrow> bool" where
  "rounding rnd \<longleftrightarrow>
     (\<forall>x. \<not> isnan (rnd x)) \<and>
     (\<forall>x y. x \<le> y \<longrightarrow> fl_le (rnd x) (rnd y)) \<and>
     (\<forall>x. rnd (- x) = fl_neg (rnd x)) \<and>
     rnd 0 = Fin 0 \<and>
     (\<forall>x y. rnd x = Fin y \<longrightarrow> rnd y = Fin y)"

text \<open>
  Two rounding functions for concrete runs: no rounding at all, and the range of
  binary32 (a magnitude of \<open>2^128\<close> or more overflows, a magnitude below \<open>2^-150\<close>
  underflows to zero) with exact values in between.
\<close>

definition exact :: rounding where
  "exact x = Fin x"

definition binary32_range :: rounding where
  "binary32_range x =
     (if 2 ^ 128 \<le> \<bar>x\<bar> then (if 0 < x then PInf else NInf)
      else if \<bar>x\<bar> < 1 / 2 ^ 150 then Fin 0
      else Fin x)"

subsection \<open>Tensors\<close>

datatype error = ZeroDivisionError | AssertionError | ShapeError

fun and_then :: "error + 'a \<Rightarrow> ('a \<Rightarrow> error + 'b) \<Rightarrow> error + 'b" where
  "and_then (Inl e) f = Inl e"
| "and_then (Inr x) f = f x"

type_synonym TimeTensor = "fl list"
type_synonym NormTensor = "fl list"
type_synonym AcceptTensor = "bool list"
type_synonym DataTensor = "fl list list"

text \<open>\<open>torch.where(c, xs, ys)\<close> on three tensors of shape \<open>(batch)\<close>.\<close>

definition torch_where :: "bool list \<Rightarrow> 'a list \<Rightarrow> 'a list \<Rightarrow> error + 'a list" where
  "torch_where c xs ys =
     (if length xs = length c \<and> length ys = length c
      then Inr (map (\<lambda>(b, x, y). if b then x else y) (zip c (zip xs ys)))
      else Inl ShapeError)"

text \<open>
  An elementwise binary operation on two tensors of shape \<open>(batch)\<close>, and on two
  tensors of shape \<open>(batch, features)\<close>.
\<close>

definition elementwise :: "('a \<Rightarrow> 'b \<Rightarrow> 'c) \<Rightarrow> 'a list \<Rightarrow> 'b list \<Rightarrow> error + 'c list" where
  "elementwise f xs ys =
     (if length xs = length ys then Inr (map2 f xs ys) else Inl ShapeError)"

definition elementwise2 ::
  "('a \<Rightarrow> 'b \<Rightarrow> 'c) \<Rightarrow> 'a list list \<Rightarrow> 'b list list \<Rightarrow> error + 'c list list" where
  "elementwise2 f a b =
     (if map length a = map length b then Inr (map2 (map2 f) a b) else Inl ShapeError)"

subsection \<open>The controller state\<close>

text \<open>
  \<open>PIDState\<close> is a class of torchode; the controller reads its fields and calls
  \<open>update_error_ratios\<close> and \<open>PIDState.default\<close>. The record has the fields the
  source reads.
\<close>

record PIDState =
  method_order :: int
  prev_error_ratio :: NormTensor
  prev_prev_error_ratio :: NormTensor
  almost_zero :: fl
  dt_min :: "fl option"
  dt_max :: "fl option"

text \<open>
  Modelled from the spec: \<open>PIDState.update_error_ratios\<close>, which is not in the
  sources. The spec: it "returns a state with only the two history fields replaced; all
  other fields carried over unchanged".
\<close>

definition update_error_ratios :: "PIDState \<Rightarrow> NormTensor \<Rightarrow> NormTensor \<Rightarrow> PIDState" where
  "update_error_ratios s new_prev new_prev_prev =
     s\<lparr>prev_error_ratio := new_prev, prev_prev_error_ratio := new_prev_prev\<rparr>"

text \<open>
  Modelled from the spec: \<open>PIDState.default\<close>, which is not in the sources. The
  spec: a fresh state has "both history slots set to the neutral ratio 1.0", and
  \<open>almost_zero\<close> is "a small positive floor constant"; the spec gives no value for it,
  so it is the parameter \<open>az\<close>.
\<close>

definition PIDState_default ::
  "fl \<Rightarrow> int \<Rightarrow> nat \<Rightarrow> fl option \<Rightarrow> fl option \<Rightarrow> PIDState" where
  "PIDState_default az order n dt_min' dt_max' =
     \<lparr>method_order = order, prev_error_ratio = replicate n (Fin 1),
      prev_prev_error_ratio = replicate n (Fin 1), almost_zero = az,
      dt_min = dt_min', dt_max = dt_max'\<rparr>"

subsection \<open>The controller\<close>

text \<open>
  The vector field of an \<open>ODETerm\<close>, \<open>vf(t, y, stats, args)\<close>, as a function of \<open>t\<close>
  and \<open>y\<close>; \<open>stats\<close> and \<open>args\<close> are passed through by the controller and are left out.
  \<open>self.term\<close> is the field \<open>self_term\<close> and \<open>self.norm\<close> the field \<open>norm_fn\<close>;
  \<open>self.dt_min\<close> and \<open>self.dt_max\<close> are \<open>self_dt_min\<close> and \<open>self_dt_max\<close>.
\<close>

type_synonym ODETerm = "TimeTensor \<Rightarrow> DataTensor \<Rightarrow> DataTensor"

record PIDController =
  atol :: fl
  rtol :: fl
  pcoeff :: real
  icoeff :: real
  dcoeff :: real
  self_term :: "ODETerm option"
  norm_fn :: "DataTensor \<Rightarrow> NormTensor"
  force_monotonic_solve :: "bool option"
  self_dt_min :: "real option"
  self_dt_max :: "real option"
  safety :: real
  factor_min :: real
  factor_max :: real

record InitialValueProblem =
  batch_size :: nat

record StepResult =
  step_y :: DataTensor
  error_estimate :: "DataTensor option"

datatype status_code = SUCCESS | INFINITE_NORM

text \<open>
  \<open>dt_factor\<close>, lines 59 to 81. \<open>method_order\<close> is a Python integer: dividing the
  coefficients by zero raises.
\<close>

definition dt_factor ::
  "rounding \<Rightarrow> PIDController \<Rightarrow> PIDState \<Rightarrow> NormTensor \<Rightarrow> error + NormTensor" where
  "dt_factor rnd self s error_ratio =
     (let order = method_order s in
      if order = 0 then Inl ZeroDivisionError
      else
        let k_I = icoeff self / of_int order;
            k_P = pcoeff self / of_int order;
            k_D = dcoeff self / of_int order;
            factor1 = map (\<lambda>x. fl_pow rnd x (- (k_I + k_P + k_D))) error_ratio;
            factor2 = map (\<lambda>x. fl_pow rnd x (k_P + 2 * k_D)) (prev_error_ratio s);
            factor3 = map (\<lambda>x. fl_pow rnd x (- k_D)) (prev_prev_error_ratio s)
        in
        and_then
          (elementwise (fl_mul rnd) (map (\<lambda>x. fl_mul rnd (Fin (safety self)) x) factor1)
             factor2)
          (\<lambda>f12.
        and_then (elementwise (fl_mul rnd) f12 factor3) (\<lambda>factor.
        Inr (map (\<lambda>x. torch_clamp x (Fin (factor_min self)) (Fin (factor_max self)))
               factor))))"

text \<open>\<open>initial_state\<close>, lines 83 to 97; \<open>az\<close> is the floor of \<open>PIDState.default\<close>.\<close>

definition initial_state ::
  "fl \<Rightarrow> PIDController \<Rightarrow> int \<Rightarrow> InitialValueProblem \<Rightarrow> fl option \<Rightarrow> fl option
     \<Rightarrow> PIDState" where
  "initial_state az self order problem dt_min' dt_max' =
     PIDState_default az order (batch_size problem) dt_min' dt_max'"

text \<open>\<open>merge_states\<close>, lines 99 to 104.\<close>

definition merge_states :: "AcceptTensor \<Rightarrow> PIDState \<Rightarrow> PIDState \<Rightarrow> error + PIDState" where
  "merge_states running current previous =
     and_then (torch_where running (prev_error_ratio current) (prev_error_ratio previous))
       (\<lambda>p.
     and_then (torch_where running (prev_prev_error_ratio current)
                 (prev_prev_error_ratio previous))
       (\<lambda>pp.
     Inr (update_error_ratios current p pp)))"

text \<open>
  \<open>update_state\<close>, lines 106 to 124. \<open>y0.new_ones(dt.shape)\<close> is a tensor of ones of
  the shape of \<open>dt\<close>.
\<close>

definition update_state ::
  "PIDState \<Rightarrow> DataTensor \<Rightarrow> TimeTensor \<Rightarrow> NormTensor option \<Rightarrow> AcceptTensor option
     \<Rightarrow> error + PIDState" where
  "update_state s y0 dt error_ratio accept =
     (case error_ratio of
        None \<Rightarrow>
          Inr (update_error_ratios s (replicate (length dt) (Fin 1)) (prev_error_ratio s))
      | Some er \<Rightarrow>
          (case accept of
             None \<Rightarrow> Inl AssertionError
           | Some acc \<Rightarrow>
               and_then (torch_where acc er (prev_error_ratio s))
                 (\<lambda>p.
               and_then (torch_where acc (prev_error_ratio s) (prev_prev_error_ratio s))
                 (\<lambda>pp.
               Inr (update_error_ratios s p pp)))))"

text \<open>
  The error ratio of \<open>adapt_step_size\<close>, lines 188 to 192: the norm of the error
  over its bounds, and \<open>torch.maximum\<close> of it and \<open>almost_zero\<close>.
\<close>

definition error_ratio_of ::
  "rounding \<Rightarrow> PIDController \<Rightarrow> PIDState \<Rightarrow> DataTensor \<Rightarrow> DataTensor \<Rightarrow> DataTensor
     \<Rightarrow> error + NormTensor" where
  "error_ratio_of rnd self s y0 y1 err_estimate =
     and_then (elementwise2 fl_max (map (map fl_abs) y0) (map (map fl_abs) y1)) (\<lambda>m.
     let error_bounds = map (map (\<lambda>v. fl_add rnd (atol self) (fl_mul rnd (rtol self) v))) m;
         err = map (map fl_abs) err_estimate
     in
     and_then (elementwise2 (fl_div rnd) err error_bounds) (\<lambda>q.
     Inr (map (\<lambda>r. fl_max r (almost_zero s)) (norm_fn self q))))"

text \<open>\<open>adapt_step_size\<close>, lines 164 to 216.\<close>

definition adapt_step_size ::
  "rounding \<Rightarrow> PIDController \<Rightarrow> TimeTensor \<Rightarrow> TimeTensor \<Rightarrow> DataTensor \<Rightarrow> StepResult
     \<Rightarrow> PIDState
     \<Rightarrow> error + (AcceptTensor \<times> TimeTensor \<times> PIDState \<times> status_code list option)" where
  "adapt_step_size rnd self t0 dt y0 step_result s =
     (case error_estimate step_result of
        None \<Rightarrow>
          and_then (update_state s y0 dt None None) (\<lambda>s'.
          Inr (replicate (length dt) True, dt, s', None))
      | Some err_estimate \<Rightarrow>
          and_then (error_ratio_of rnd self s y0 (step_y step_result) err_estimate)
            (\<lambda>error_ratio.
          let accept = map (\<lambda>r. fl_lt r (Fin 1)) error_ratio in
          and_then (dt_factor rnd self s error_ratio) (\<lambda>factor.
          and_then (elementwise (fl_mul rnd) dt factor) (\<lambda>dt_next.
          let status = map (\<lambda>r. if isfinite r then SUCCESS else INFINITE_NORM) error_ratio;
              dt_next =
                (if dt_min s \<noteq> None \<or> dt_max s \<noteq> None
                 then map (\<lambda>x. torch_clamp_opt x (dt_min s) (dt_max s)) dt_next
                 else dt_next)
          in
          and_then (update_state s y0 dt (Some error_ratio) (Some accept)) (\<lambda>s'.
          Inr (accept, dt_next, s', Some status))))))"






subsection \<open>The states of a solve\<close>

text \<open>
  The states a solve can hold, for a controller \<open>self\<close>, the rounding of its tensors,
  and the order, the batch size, the bounds and the floor \<open>az\<close> of its initial state: the
  initial state, the state after a step attempt (with or without an error estimate,
  accepted or rejected), and the merge of two such states.
\<close>

inductive reachable ::
  "rounding \<Rightarrow> PIDController \<Rightarrow> fl \<Rightarrow> int \<Rightarrow> InitialValueProblem \<Rightarrow> fl option \<Rightarrow> fl option
     \<Rightarrow> PIDState \<Rightarrow> bool"
  for rnd self az order problem dt_min' dt_max' where
  reachable_init:
    "reachable rnd self az order problem dt_min' dt_max'
       (initial_state az self order problem dt_min' dt_max')"
| reachable_step:
    "reachable rnd self az order problem dt_min' dt_max' s \<Longrightarrow>
     adapt_step_size rnd self t0 dt y0 step_result s = Inr (accept, dt_next, s', status) \<Longrightarrow>
     reachable rnd self az order problem dt_min' dt_max' s'"
| reachable_merge:
    "reachable rnd self az order problem dt_min' dt_max' current \<Longrightarrow>
     reachable rnd self az order problem dt_min' dt_max' previous \<Longrightarrow>
     merge_states running current previous = Inr s \<Longrightarrow>
     reachable rnd self az order problem dt_min' dt_max' s"

subsection \<open>Concrete inputs\<close>

text \<open>
  Modelled from the spec: \<open>rms_norm\<close>, the default of \<open>self.norm\<close>, which is not in the
  sources. The spec: the norm "defaults to root-mean-square", one value per batch
  element. The mean of the squares of a row with a NaN is a NaN, of a row with an
  infinity and no NaN an infinity, of an empty row a NaN; the root of the mean of a finite
  row is rounded once.
\<close>

fun fl_val :: "fl \<Rightarrow> real" where
  "fl_val (Fin x) = x"
| "fl_val _ = 0"

definition rms_row :: "rounding \<Rightarrow> fl list \<Rightarrow> fl" where
  "rms_row rnd row =
     (if row = [] \<or> (\<exists>v\<in>set row. isnan v) then NaN
      else if \<exists>v\<in>set row. \<not> isfinite v then PInf
      else rnd (sqrt (sum_list (map (\<lambda>v. (fl_val v)\<^sup>2) row) / real (length row))))"

definition rms_norm :: "rounding \<Rightarrow> DataTensor \<Rightarrow> NormTensor" where
  "rms_norm rnd a = map (rms_row rnd) a"

text \<open>A controller with the settings of the spec's end-to-end scenario.\<close>

definition example_controller :: "rounding \<Rightarrow> PIDController" where
  "example_controller rnd =
     \<lparr>atol = Fin (1 / 1000000), rtol = Fin (1 / 1000), pcoeff = 1 / 5, icoeff = 1 / 5,
      dcoeff = 0, self_term = None, norm_fn = rms_norm rnd,
      force_monotonic_solve = Some True, self_dt_min = None, self_dt_max = None,
      safety = 9 / 10, factor_min = 1 / 5, factor_max = 10\<rparr>"

section \<open>Properties\<close>

lemma and_then_Inr:
  "and_then m f = Inr y \<longleftrightarrow> (\<exists>x. m = Inr x \<and> f x = Inr y)"
  by (cases m) simp_all

subsection \<open>The order of the floats\<close>

lemma fl_le_refl: "\<not> isnan x \<Longrightarrow> fl_le x x"
  by (cases x) simp_all



lemma fl_le_lt_trans: "fl_le a b \<Longrightarrow> fl_lt b c \<Longrightarrow> fl_lt a c"
  by (cases a; cases b; cases c) simp_all

lemma fl_lt_le_trans: "fl_lt a b \<Longrightarrow> fl_le b c \<Longrightarrow> fl_lt a c"
  by (cases a; cases b; cases c) simp_all

lemma fl_le_not_nan: "fl_le a b \<Longrightarrow> \<not> isnan a \<and> \<not> isnan b"
  by (cases a; cases b) simp_all

lemma fl_lt_not_nan: "fl_lt a b \<Longrightarrow> \<not> isnan a \<and> \<not> isnan b"
  by (cases a; cases b) simp_all

lemma fl_not_lt: "\<not> isnan a \<Longrightarrow> \<not> isnan b \<Longrightarrow> \<not> fl_lt a b \<longleftrightarrow> fl_le b a"
  by (cases a; cases b) auto

lemma fl_not_le: "\<not> isnan a \<Longrightarrow> \<not> isnan b \<Longrightarrow> \<not> fl_le a b \<longleftrightarrow> fl_lt b a"
  by (cases a; cases b) auto

lemma fl_lt_not_le: "fl_lt a b \<Longrightarrow> \<not> fl_le b a"
  by (cases a; cases b) auto

lemma isfinite_not_nan: "isfinite x \<Longrightarrow> \<not> isnan x"
  by (cases x) simp_all

lemma fl_max_nan: "isnan (fl_max a b) \<longleftrightarrow> isnan a \<or> isnan b"
  by (cases a; cases b) (simp_all add: fl_max_def)

lemma fl_min_nan: "isnan (fl_min a b) \<longleftrightarrow> isnan a \<or> isnan b"
  by (cases a; cases b) (simp_all add: fl_min_def)

lemma fl_max_ge:
  assumes "\<not> isnan a" and "\<not> isnan b"
  shows "fl_le a (fl_max a b)" and "fl_le b (fl_max a b)"
  using assms by (cases a; cases b; simp add: fl_max_def)+

lemma fl_min_le:
  assumes "\<not> isnan a" and "\<not> isnan b"
  shows "fl_le (fl_min a b) a" and "fl_le (fl_min a b) b"
  using assms by (cases a; cases b; simp add: fl_min_def)+

lemma fl_min_cases: "fl_min a b = NaN \<or> fl_min a b = a \<or> fl_min a b = b"
  by (simp add: fl_min_def)

lemma fl_max_cases: "fl_max a b = NaN \<or> fl_max a b = a \<or> fl_max a b = b"
  by (simp add: fl_max_def)

lemma fl_min_ge:
  "fl_le c a \<Longrightarrow> fl_le c b \<Longrightarrow> fl_le c (fl_min a b)"
  by (cases a; cases b; cases c) (simp_all add: fl_min_def)

lemma fl_max_floor:
  "isnan (fl_max r az) \<or> fl_le az (fl_max r az)"
  by (cases r; cases az) (simp_all add: fl_max_def)

lemma isnan_eq: "isnan x \<longleftrightarrow> x = NaN"
  by (cases x) simp_all



subsection \<open>Rounding\<close>


lemma rounding_binary32_range: "rounding binary32_range"
  unfolding rounding_def
proof (intro conjI allI impI)
  fix x show "\<not> isnan (binary32_range x)"
    by (simp add: binary32_range_def)
next
  fix x y :: real assume "x \<le> y"
  then show "fl_le (binary32_range x) (binary32_range y)"
    by (auto simp: binary32_range_def abs_if split: if_splits)
next
  fix x show "binary32_range (- x) = fl_neg (binary32_range x)"
    by (auto simp: binary32_range_def abs_if split: if_splits)
next
  show "binary32_range 0 = Fin 0"
    by (simp add: binary32_range_def)
next
  fix x y assume "binary32_range x = Fin y"
  then show "binary32_range y = Fin y"
    by (auto simp: binary32_range_def split: if_splits)
qed

lemma rounding_not_nan: "rounding rnd \<Longrightarrow> \<not> isnan (rnd x)"
  by (simp add: rounding_def)

lemma rounding_mono: "rounding rnd \<Longrightarrow> x \<le> y \<Longrightarrow> fl_le (rnd x) (rnd y)"
  by (simp add: rounding_def)


lemma rounding_nonpos: "rounding rnd \<Longrightarrow> x \<le> 0 \<Longrightarrow> fl_le (rnd x) (Fin 0)"
  using rounding_mono [of rnd x 0] by (simp add: rounding_def)



subsection \<open>Elementwise selection\<close>

lemma torch_where_Inr:
  "torch_where c xs ys = Inr zs \<longleftrightarrow>
     length xs = length c \<and> length ys = length c \<and>
     zs = map (\<lambda>(b, x, y). if b then x else y) (zip c (zip xs ys))"
  by (auto simp: torch_where_def split: if_splits)

lemma torch_where_length:
  "torch_where c xs ys = Inr zs \<Longrightarrow> length zs = length c"
  by (auto simp: torch_where_Inr)

lemma torch_where_nth:
  "torch_where c xs ys = Inr zs \<Longrightarrow> i < length c \<Longrightarrow>
     zs ! i = (if c ! i then xs ! i else ys ! i)"
  by (auto simp: torch_where_Inr)

lemma torch_where_all_true:
  assumes "torch_where c xs ys = Inr zs" and "\<forall>b\<in>set c. b"
  shows "zs = xs"
proof (rule nth_equalityI)
  show "length zs = length xs"
    using assms(1) by (auto simp: torch_where_Inr)
next
  fix i assume "i < length zs"
  then have i: "i < length c"
    using assms(1) by (auto simp: torch_where_Inr)
  then have "c ! i" using assms(2) nth_mem by blast
  then show "zs ! i = xs ! i"
    using torch_where_nth [OF assms(1) i] by simp
qed

lemma torch_where_all_false:
  assumes "torch_where c xs ys = Inr zs" and "\<forall>b\<in>set c. \<not> b"
  shows "zs = ys"
proof (rule nth_equalityI)
  show "length zs = length ys"
    using assms(1) by (auto simp: torch_where_Inr)
next
  fix i assume "i < length zs"
  then have i: "i < length c"
    using assms(1) by (auto simp: torch_where_Inr)
  then have "\<not> c ! i" using assms(2) nth_mem by blast
  then show "zs ! i = ys ! i"
    using torch_where_nth [OF assms(1) i] by simp
qed

lemma torch_where_set:
  assumes "torch_where c xs ys = Inr zs"
  shows "set zs \<subseteq> set xs \<union> set ys"
proof
  fix z assume "z \<in> set zs"
  then obtain i where i: "i < length zs" and z: "z = zs ! i"
    by (auto simp: in_set_conv_nth)
  have len: "length zs = length c" "length xs = length c" "length ys = length c"
    using assms by (auto simp: torch_where_Inr)
  have "zs ! i = (if c ! i then xs ! i else ys ! i)"
    using torch_where_nth [OF assms] i len by simp
  then show "z \<in> set xs \<union> set ys"
    using z i len by (auto simp: in_set_conv_nth)
qed

lemma torch_where_total:
  "length xs = length c \<Longrightarrow> length ys = length c \<Longrightarrow> \<exists>zs. torch_where c xs ys = Inr zs"
  by (simp add: torch_where_def)

lemma merge_states_Inr:
  "merge_states running current previous = Inr s \<longleftrightarrow>
     (\<exists>p pp.
        torch_where running (prev_error_ratio current) (prev_error_ratio previous) = Inr p \<and>
        torch_where running (prev_prev_error_ratio current) (prev_prev_error_ratio previous)
          = Inr pp \<and>
        s = update_error_ratios current p pp)"
proof (cases "torch_where running (prev_error_ratio current) (prev_error_ratio previous)")
  case (Inl e)
  then show ?thesis by (simp add: merge_states_def)
next
  case p: (Inr p)
  show ?thesis
  proof (cases "torch_where running (prev_prev_error_ratio current)
                  (prev_prev_error_ratio previous)")
    case (Inl e)
    with p show ?thesis by (simp add: merge_states_def)
  next
    case (Inr pp)
    with p show ?thesis by (auto simp: merge_states_def)
  qed
qed

lemma elementwise_Inr:
  "elementwise f xs ys = Inr zs \<longleftrightarrow> length xs = length ys \<and> zs = map2 f xs ys"
  by (auto simp: elementwise_def)

lemma map2_map_rows:
  "map (map g) (map2 (map2 f) (map (map h) a) (map (map h) b)) =
     map2 (map2 (\<lambda>x y. g (f (h x) (h y)))) a b"
  by (simp add: zip_map_map comp_def case_prod_unfold)

lemma elementwise2_Inr:
  "elementwise2 f a b = Inr c \<longleftrightarrow> map length a = map length b \<and> c = map2 (map2 f) a b"
  by (auto simp: elementwise2_def)

lemma map_length_map2_rows:
  "map length a = map length b \<Longrightarrow> map length (map2 (map2 f) a b) = map length a"
proof (induction a arbitrary: b)
  case Nil
  then show ?case by simp
next
  case (Cons r a)
  then show ?case by (cases b) auto
qed

lemma length_map2_rows:
  "map length a = map length b \<Longrightarrow> length (map2 (map2 f) a b) = length a"
  using map_length_map2_rows [of a b f] by (metis length_map)

lemma set_map2_rows:
  assumes "row \<in> set (map2 (map2 f) a b)" and "v \<in> set row"
  shows "\<exists>x y. v = f x y"
proof -
  obtain r1 r2 where "row = map2 f r1 r2"
    using assms(1) by auto
  then show ?thesis using assms(2) by auto
qed

subsection \<open>Merging states\<close>

lemma merge_states_total:
  assumes "length (prev_error_ratio current) = length running"
    and "length (prev_prev_error_ratio current) = length running"
    and "length (prev_error_ratio previous) = length running"
    and "length (prev_prev_error_ratio previous) = length running"
  shows "\<exists>s. merge_states running current previous = Inr s"
  using assms by (simp add: merge_states_def torch_where_def)

lemma merge_states_history_nth:
  assumes "merge_states running current previous = Inr s" and "i < length running"
  shows "prev_error_ratio s ! i =
           (if running ! i then prev_error_ratio current ! i
            else prev_error_ratio previous ! i)"
    and "prev_prev_error_ratio s ! i =
           (if running ! i then prev_prev_error_ratio current ! i
            else prev_prev_error_ratio previous ! i)"
  using assms
  by (auto simp: merge_states_Inr update_error_ratios_def dest: torch_where_nth)

lemma merge_states_select_fields:
  assumes "length (prev_error_ratio current) = length running"
    and "length (prev_prev_error_ratio current) = length running"
    and "length (prev_error_ratio previous) = length running"
    and "length (prev_prev_error_ratio previous) = length running"
  shows "\<exists>s. merge_states running current previous = Inr s \<and>
           length (prev_error_ratio s) = length running \<and>
           length (prev_prev_error_ratio s) = length running \<and>
           (\<forall>i<length running.
              prev_error_ratio s ! i =
                (if running ! i then prev_error_ratio current ! i
                 else prev_error_ratio previous ! i) \<and>
              prev_prev_error_ratio s ! i =
                (if running ! i then prev_prev_error_ratio current ! i
                 else prev_prev_error_ratio previous ! i)) \<and>
           ((\<forall>b\<in>set running. b) \<longrightarrow> s = current) \<and>
           ((\<forall>b\<in>set running. \<not> b) \<longrightarrow>
              s = update_error_ratios current (prev_error_ratio previous)
                    (prev_prev_error_ratio previous))"
proof -
  obtain s where s: "merge_states running current previous = Inr s"
    using merge_states_total [OF assms] by blast
  then obtain p pp where
    p: "torch_where running (prev_error_ratio current) (prev_error_ratio previous) = Inr p"
    and pp: "torch_where running (prev_prev_error_ratio current)
               (prev_prev_error_ratio previous) = Inr pp"
    and s_eq: "s = update_error_ratios current p pp"
    by (auto simp: merge_states_Inr)
  have len: "length (prev_error_ratio s) = length running"
    "length (prev_prev_error_ratio s) = length running"
    using p pp s_eq by (simp_all add: update_error_ratios_def torch_where_length)
  have nth: "\<forall>i<length running.
      prev_error_ratio s ! i =
        (if running ! i then prev_error_ratio current ! i
         else prev_error_ratio previous ! i) \<and>
      prev_prev_error_ratio s ! i =
        (if running ! i then prev_prev_error_ratio current ! i
         else prev_prev_error_ratio previous ! i)"
    using merge_states_history_nth [OF s] by blast
  have all_true: "s = current" if "\<forall>b\<in>set running. b"
  proof -
    have "p = prev_error_ratio current" "pp = prev_prev_error_ratio current"
      using torch_where_all_true [OF p that] torch_where_all_true [OF pp that] by simp_all
    then show ?thesis by (simp add: s_eq update_error_ratios_def)
  qed
  have all_false: "s = update_error_ratios current (prev_error_ratio previous)
                         (prev_prev_error_ratio previous)"
    if "\<forall>b\<in>set running. \<not> b"
    using torch_where_all_false [OF p that] torch_where_all_false [OF pp that] s_eq
    by simp
  show ?thesis
    using s len nth all_true all_false by blast
qed

text \<open>
  C9. Whatever the mask, the state that \<open>merge_states\<close> returns has the
  \<open>method_order\<close>, \<open>dt_min\<close>, \<open>dt_max\<close> and \<open>almost_zero\<close> of \<open>current\<close>; only the two
  history fields are selected between \<open>current\<close> and \<open>previous\<close>.
\<close>

theorem merge_states_frame:
  assumes "merge_states running current previous = Inr s"
  shows "method_order s = method_order current \<and>
         dt_min s = dt_min current \<and>
         dt_max s = dt_max current \<and>
         almost_zero s = almost_zero current \<and>
         s = current\<lparr>prev_error_ratio := prev_error_ratio s,
                      prev_prev_error_ratio := prev_prev_error_ratio s\<rparr>"
  using assms by (auto simp: merge_states_Inr update_error_ratios_def)

theorem merge_states_frame_witness:
  "method_order (projr (merge_states [False, False]
     \<lparr>method_order = 4, prev_error_ratio = [Fin (1/2), Fin (1/3)],
      prev_prev_error_ratio = [Fin 1, Fin (1/4)],
      almost_zero = Fin (1/100000), dt_min = Some (Fin (1/1000)), dt_max = Some (Fin 1)\<rparr>
     \<lparr>method_order = 5, prev_error_ratio = [Fin 2, Fin 3],
      prev_prev_error_ratio = [Fin 5, Fin 7],
      almost_zero = Fin (1/1000), dt_min = None, dt_max = Some (Fin 2)\<rparr>)) = 4
   \<and> dt_min (projr (merge_states [False, False]
     \<lparr>method_order = 4, prev_error_ratio = [Fin (1/2), Fin (1/3)],
      prev_prev_error_ratio = [Fin 1, Fin (1/4)],
      almost_zero = Fin (1/100000), dt_min = Some (Fin (1/1000)), dt_max = Some (Fin 1)\<rparr>
     \<lparr>method_order = 5, prev_error_ratio = [Fin 2, Fin 3],
      prev_prev_error_ratio = [Fin 5, Fin 7],
      almost_zero = Fin (1/1000), dt_min = None, dt_max = Some (Fin 2)\<rparr>))
       = Some (Fin (1/1000))
   \<and> merge_states [False, False]
     \<lparr>method_order = 4, prev_error_ratio = [Fin (1/2), Fin (1/3)],
      prev_prev_error_ratio = [Fin 1, Fin (1/4)],
      almost_zero = Fin (1/100000), dt_min = Some (Fin (1/1000)), dt_max = Some (Fin 1)\<rparr>
     \<lparr>method_order = 5, prev_error_ratio = [Fin 2, Fin 3],
      prev_prev_error_ratio = [Fin 5, Fin 7],
      almost_zero = Fin (1/1000), dt_min = None, dt_max = Some (Fin 2)\<rparr>
   = Inr \<lparr>method_order = 4, prev_error_ratio = [Fin 2, Fin 3],
      prev_prev_error_ratio = [Fin 5, Fin 7],
      almost_zero = Fin (1/100000), dt_min = Some (Fin (1/1000)), dt_max = Some (Fin 1)\<rparr>"
proof -
  have run: "merge_states [False, False]
     \<lparr>method_order = 4, prev_error_ratio = [Fin (1/2), Fin (1/3)],
      prev_prev_error_ratio = [Fin 1, Fin (1/4)],
      almost_zero = Fin (1/100000), dt_min = Some (Fin (1/1000)), dt_max = Some (Fin 1)\<rparr>
     \<lparr>method_order = 5, prev_error_ratio = [Fin 2, Fin 3],
      prev_prev_error_ratio = [Fin 5, Fin 7],
      almost_zero = Fin (1/1000), dt_min = None, dt_max = Some (Fin 2)\<rparr>
   = Inr \<lparr>method_order = 4, prev_error_ratio = [Fin 2, Fin 3],
      prev_prev_error_ratio = [Fin 5, Fin 7],
      almost_zero = Fin (1/100000), dt_min = Some (Fin (1/1000)), dt_max = Some (Fin 1)\<rparr>"
    by (simp add: merge_states_def torch_where_def update_error_ratios_def)
  show ?thesis
    using merge_states_frame [OF run] run by simp
qed

subsection \<open>Step attempts\<close>

lemma update_state_Some_Inr:
  "update_state s y0 dt (Some er) (Some acc) = Inr s' \<longleftrightarrow>
     (\<exists>p pp. torch_where acc er (prev_error_ratio s) = Inr p \<and>
        torch_where acc (prev_error_ratio s) (prev_prev_error_ratio s) = Inr pp \<and>
        s' = update_error_ratios s p pp)"
  by (auto simp: update_state_def and_then_Inr)

lemma adapt_step_size_Some_Inr:
  assumes "error_estimate step_result = Some ee"
  shows "adapt_step_size rnd self t0 dt y0 step_result s = Inr (accept, dt_next, s', status)
     \<longleftrightarrow>
     (\<exists>er factor.
        error_ratio_of rnd self s y0 (step_y step_result) ee = Inr er \<and>
        accept = map (\<lambda>r. fl_lt r (Fin 1)) er \<and>
        dt_factor rnd self s er = Inr factor \<and>
        length dt = length factor \<and>
        dt_next = (if dt_min s \<noteq> None \<or> dt_max s \<noteq> None
                   then map (\<lambda>x. torch_clamp_opt x (dt_min s) (dt_max s))
                          (map2 (fl_mul rnd) dt factor)
                   else map2 (fl_mul rnd) dt factor) \<and>
        update_state s y0 dt (Some er) (Some accept) = Inr s' \<and>
        status = Some (map (\<lambda>r. if isfinite r then SUCCESS else INFINITE_NORM) er))"
  using assms
  apply (simp add: adapt_step_size_def and_then_Inr elementwise_Inr Let_def
      split del: if_split cong: if_cong)
  apply (rule iffI)
   apply (elim exE conjE)
   apply simp
  apply (elim exE conjE)
  apply simp
  done

lemma adapt_step_size_None:
  assumes "error_estimate step_result = None"
  shows "adapt_step_size rnd self t0 dt y0 step_result s =
     Inr (replicate (length dt) True, dt,
          s\<lparr>prev_error_ratio := replicate (length dt) (Fin 1),
            prev_prev_error_ratio := prev_error_ratio s\<rparr>, None)"
  using assms by (simp add: adapt_step_size_def update_state_def update_error_ratios_def)

text \<open>
  C4. When the step result has no error estimate, \<open>adapt_step_size\<close> accepts every
  batch element, returns \<open>dt\<close> itself as the next step size and no status, and the new
  state has the history ratio 1 for every element, the previous ratio moved to
  \<open>prev_prev_error_ratio\<close>, and the other fields unchanged.
\<close>

theorem adapt_step_size_no_error_estimate:
  assumes "error_estimate step_result = None"
  shows "adapt_step_size rnd self t0 dt y0 step_result s =
     Inr (replicate (length dt) True, dt,
          s\<lparr>prev_error_ratio := replicate (length dt) (Fin 1),
            prev_prev_error_ratio := prev_error_ratio s\<rparr>, None)"
  using assms by (rule adapt_step_size_None)

theorem adapt_step_size_no_error_estimate_witness:
  "adapt_step_size exact (example_controller exact) [Fin 0, Fin 0] [Fin (1/10), Fin (1/20)]
     [[Fin 0], [Fin 0]]
     \<lparr>step_y = [[Fin 1], [Fin 2]], error_estimate = None\<rparr>
     \<lparr>method_order = 4, prev_error_ratio = [Fin (3/4), Fin (1/4)],
      prev_prev_error_ratio = [Fin 1, Fin (1/2)],
      almost_zero = Fin (1/100000), dt_min = None, dt_max = None\<rparr>
   = Inr ([True, True], [Fin (1/10), Fin (1/20)],
       \<lparr>method_order = 4, prev_error_ratio = [Fin 1, Fin 1],
        prev_prev_error_ratio = [Fin (3/4), Fin (1/4)],
        almost_zero = Fin (1/100000), dt_min = None, dt_max = None\<rparr>, None)"
  using adapt_step_size_no_error_estimate [of
      "\<lparr>step_y = [[Fin 1], [Fin 2]], error_estimate = None\<rparr>" exact
      "example_controller exact" "[Fin 0, Fin 0]"
      "[Fin (1/10), Fin (1/20)]" "[[Fin 0], [Fin 0]]"
      "\<lparr>method_order = 4, prev_error_ratio = [Fin (3/4), Fin (1/4)],
        prev_prev_error_ratio = [Fin 1, Fin (1/2)],
        almost_zero = Fin (1/100000), dt_min = None, dt_max = None\<rparr>"]
  by (simp add: numeral_2_eq_2)

lemma update_state_history_nth:
  assumes "update_state s y0 dt (Some er) (Some acc) = Inr s'" and "i < length acc"
  shows "prev_error_ratio s' ! i = (if acc ! i then er ! i else prev_error_ratio s ! i)"
    and "prev_prev_error_ratio s' ! i =
           (if acc ! i then prev_error_ratio s ! i else prev_prev_error_ratio s ! i)"
    and "s' = s\<lparr>prev_error_ratio := prev_error_ratio s',
                 prev_prev_error_ratio := prev_prev_error_ratio s'\<rparr>"
  using assms
  by (auto simp: update_state_Some_Inr update_error_ratios_def dest: torch_where_nth)

lemma update_state_all_rejected:
  assumes "update_state s y0 dt (Some er) (Some acc) = Inr s'" and "\<forall>a\<in>set acc. \<not> a"
  shows "s' = s"
proof -
  obtain p pp where p: "torch_where acc er (prev_error_ratio s) = Inr p"
    and pp: "torch_where acc (prev_error_ratio s) (prev_prev_error_ratio s) = Inr pp"
    and s': "s' = update_error_ratios s p pp"
    using assms(1) by (auto simp: update_state_Some_Inr)
  have "p = prev_error_ratio s" "pp = prev_prev_error_ratio s"
    using torch_where_all_false [OF p assms(2)] torch_where_all_false [OF pp assms(2)]
    by simp_all
  then show ?thesis by (simp add: s' update_error_ratios_def)
qed

subsection \<open>The growth factor\<close>

lemma dt_factor_Inr:
  "dt_factor rnd self s er = Inr factor \<longleftrightarrow>
     method_order s \<noteq> 0 \<and>
     length (prev_error_ratio s) = length er \<and>
     length (prev_prev_error_ratio s) = length er \<and>
     factor =
       map (\<lambda>x. torch_clamp x (Fin (factor_min self)) (Fin (factor_max self)))
         (map2 (fl_mul rnd)
            (map2 (fl_mul rnd)
               (map (\<lambda>x. fl_mul rnd (Fin (safety self)) x)
                  (map (\<lambda>x. fl_pow rnd x
                            (- (icoeff self / of_int (method_order s)
                                + pcoeff self / of_int (method_order s)
                                + dcoeff self / of_int (method_order s)))) er))
               (map (\<lambda>x. fl_pow rnd x
                         (pcoeff self / of_int (method_order s)
                          + 2 * (dcoeff self / of_int (method_order s))))
                  (prev_error_ratio s)))
            (map (\<lambda>x. fl_pow rnd x (- (dcoeff self / of_int (method_order s))))
               (prev_prev_error_ratio s)))"
  by (auto simp: dt_factor_def Let_def and_then_Inr elementwise_Inr)




subsection \<open>The error ratio\<close>

lemma error_ratio_of_Inr:
  "error_ratio_of rnd self s y0 y1 ee = Inr er \<longleftrightarrow>
     map length y0 = map length y1 \<and>
     map length ee = map length y0 \<and>
     er = map (\<lambda>r. fl_max r (almost_zero s))
            (norm_fn self
               (map2 (map2 (fl_div rnd)) (map (map fl_abs) ee)
                  (map2 (map2 (\<lambda>a b. fl_add rnd (atol self)
                                  (fl_mul rnd (rtol self) (fl_max (fl_abs a) (fl_abs b)))))
                     y0 y1)))"
proof -
  let ?g = "\<lambda>v. fl_add rnd (atol self) (fl_mul rnd (rtol self) v)"
  let ?B = "map2 (map2 (\<lambda>a b. ?g (fl_max (fl_abs a) (fl_abs b)))) y0 y1"
  have B: "map (map ?g) (map2 (map2 fl_max) (map (map fl_abs) y0) (map (map fl_abs) y1)) = ?B"
    by (rule map2_map_rows)
  have s1: "map length (map (map fl_abs) y0) = map length (map (map fl_abs) y1)
              \<longleftrightarrow> map length y0 = map length y1"
    by (simp add: comp_def)
  have s2: "map length ?B = map length y0" if "map length y0 = map length y1"
    by (rule map_length_map2_rows) (rule that)
  have s3: "map length (map (map fl_abs) ee) = map length ee"
    by (simp add: comp_def)
  show ?thesis
    unfolding error_ratio_of_def and_then_Inr Let_def elementwise2_Inr
    using B s1 s2 s3 by (auto simp del: map_map)
qed

lemma error_ratio_of_floor:
  assumes "error_ratio_of rnd self s y0 y1 ee = Inr er"
  shows "\<forall>x\<in>set er. isnan x \<or> fl_le (almost_zero s) x"
  using assms fl_max_floor unfolding error_ratio_of_Inr by auto

lemma error_ratio_of_length:
  assumes "error_ratio_of rnd self s y0 y1 ee = Inr er"
    and "\<forall>q. length (norm_fn self q) = length q"
  shows "length er = length y0"
proof -
  have shape: "map length y0 = map length y1" "map length ee = map length y0"
    using assms(1) unfolding error_ratio_of_Inr by simp_all
  let ?B = "map2 (map2 (\<lambda>a b. fl_add rnd (atol self)
                      (fl_mul rnd (rtol self) (fl_max (fl_abs a) (fl_abs b))))) y0 y1"
  have "map length ?B = map length y0"
    by (rule map_length_map2_rows) (rule shape(1))
  then have "map length (map (map fl_abs) ee) = map length ?B"
    using shape(2) by (simp add: comp_def)
  then have "length (map2 (map2 (fl_div rnd)) (map (map fl_abs) ee) ?B) = length ee"
    using length_map2_rows [of "map (map fl_abs) ee" ?B "fl_div rnd"] by simp
  moreover have "length ee = length y0"
    using shape(2) by (metis length_map)
  ultimately show ?thesis
    using assms unfolding error_ratio_of_Inr by simp
qed

text \<open>
  A step attempt with an error estimate returns when the tensors have the batch shape,
  the norm keeps it and the order is not zero: nothing else raises.
\<close>

lemma adapt_step_size_returns:
  assumes est: "error_estimate step_result = Some ee"
    and shape: "map length (step_y step_result) = map length y0"
      "map length ee = map length y0" "length y0 = length dt"
    and norm_shape: "\<forall>q. length (norm_fn self q) = length q"
    and order: "method_order s \<noteq> 0"
    and hist: "length (prev_error_ratio s) = length dt"
      "length (prev_prev_error_ratio s) = length dt"
  shows "\<exists>accept dt_next s' status.
           adapt_step_size rnd self t0 dt y0 step_result s = Inr (accept, dt_next, s', status)"
proof -
  obtain er where er: "error_ratio_of rnd self s y0 (step_y step_result) ee = Inr er"
    using shape(1,2) by (simp add: error_ratio_of_Inr)
  have er_len: "length er = length dt"
    using error_ratio_of_length [OF er norm_shape] shape(3) by simp
  obtain factor where f: "dt_factor rnd self s er = Inr factor"
    using order hist er_len by (simp add: dt_factor_Inr)
  have f_len: "length factor = length er"
    using f hist er_len by (auto simp: dt_factor_Inr)
  define accept where "accept = map (\<lambda>r. fl_lt r (Fin 1)) er"
  obtain s' where upd: "update_state s y0 dt (Some er) (Some accept) = Inr s'"
    using hist(1,2) er_len
    by (simp add: update_state_Some_Inr torch_where_def accept_def)
  show ?thesis
    unfolding adapt_step_size_Some_Inr [OF est]
    using er f f_len er_len upd accept_def by auto
qed

lemma fl_div_PInf: "\<not> isfinite (fl_div rnd PInf b)"
  by (cases b) auto

lemma fl_max_nonfinite: "r = PInf \<or> r = NaN \<Longrightarrow> \<not> isfinite (fl_max r az)"
  by (cases az) (auto simp: fl_max_def)

lemma nth_map2_rows:
  assumes "map length a = map length b" and "i < length a"
  shows "map2 (map2 f) a b ! i = map2 f (a ! i) (b ! i)"
proof -
  have "length a = length b" using assms(1) by (metis length_map)
  then show ?thesis using assms(2) by simp
qed

lemma error_ratio_of_nth:
  assumes er: "error_ratio_of rnd self s y0 y1 ee = Inr er"
    and norm: "norm_fn self = map nrm"
    and i: "i < length ee"
  shows "er ! i =
           fl_max
             (nrm (map2 (fl_div rnd) (map fl_abs (ee ! i))
                     (map2 (\<lambda>a b. fl_add rnd (atol self)
                               (fl_mul rnd (rtol self) (fl_max (fl_abs a) (fl_abs b))))
                        (y0 ! i) (y1 ! i))))
             (almost_zero s)"
    and "length er = length ee"
    and "length (ee ! i) = length (y0 ! i)"
    and "length (y1 ! i) = length (y0 ! i)"
proof -
  let ?g = "\<lambda>a b. fl_add rnd (atol self) (fl_mul rnd (rtol self) (fl_max (fl_abs a) (fl_abs b)))"
  let ?B = "map2 (map2 ?g) y0 y1"
  let ?E = "map (map fl_abs) ee"
  let ?Q = "map2 (map2 (fl_div rnd)) ?E ?B"
  have shape: "map length y0 = map length y1" "map length ee = map length y0"
    and er_eq: "er = map (\<lambda>r. fl_max r (almost_zero s)) (norm_fn self ?Q)"
    using er unfolding error_ratio_of_Inr by simp_all
  have len: "length ee = length y0" "length y1 = length y0"
    using shape by (metis length_map)+
  have Bshape: "map length ?B = map length y0"
    by (rule map_length_map2_rows) (rule shape(1))
  have Eshape: "map length ?E = map length ?B"
    using Bshape shape(2) by (simp add: comp_def)
  have lenQ: "length ?Q = length ee"
    using length_map2_rows [OF Eshape, of "fl_div rnd"] by simp
  have Bi: "?B ! i = map2 ?g (y0 ! i) (y1 ! i)"
    using nth_map2_rows [OF shape(1), of i ?g] i len by simp
  have Qi: "?Q ! i = map2 (fl_div rnd) (map fl_abs (ee ! i)) (?B ! i)"
    using nth_map2_rows [OF Eshape, of i "fl_div rnd"] i by simp
  show "er ! i = fl_max (nrm (map2 (fl_div rnd) (map fl_abs (ee ! i))
                               (map2 ?g (y0 ! i) (y1 ! i)))) (almost_zero s)"
    using er_eq norm lenQ i Qi Bi by simp
  show "length er = length ee"
    using er_eq norm lenQ by simp
  show "length (ee ! i) = length (y0 ! i)"
    using shape(2) i len by (metis nth_map)
  show "length (y1 ! i) = length (y0 ! i)"
    using shape(1) i len by (metis nth_map)
qed

lemma injected_ratio:
  assumes er: "error_ratio_of rnd self s y0 y1 ee' = Inr er'"
    and norm: "norm_fn self = map nrm"
    and nonfinite: "\<forall>row. (\<exists>v\<in>set row. \<not> isfinite v) \<longrightarrow> nrm row = PInf \<or> nrm row = NaN"
    and i: "i < length ee'"
    and inf: "PInf \<in> set (ee' ! i)"
  shows "\<not> isfinite (er' ! i)"
proof -
  let ?g = "\<lambda>a b. fl_add rnd (atol self) (fl_mul rnd (rtol self) (fl_max (fl_abs a) (fl_abs b)))"
  let ?Bi = "map2 ?g (y0 ! i) (y1 ! i)"
  let ?R = "map2 (fl_div rnd) (map fl_abs (ee' ! i)) ?Bi"
  note facts = error_ratio_of_nth [OF er norm i]
  obtain j where j: "j < length (ee' ! i)" and ej: "ee' ! i ! j = PInf"
    using inf by (auto simp: in_set_conv_nth)
  have lenB: "length ?Bi = length (ee' ! i)"
    using facts(3,4) by simp
  have "?R ! j = fl_div rnd PInf (?Bi ! j)"
    using j lenB ej by simp
  then have "\<not> isfinite (?R ! j)"
    using fl_div_PInf by simp
  moreover have "j < length ?R"
    using j lenB by simp
  ultimately have "\<exists>v\<in>set ?R. \<not> isfinite v"
    using nth_mem by blast
  then have "nrm ?R = PInf \<or> nrm ?R = NaN"
    using nonfinite by blast
  then show ?thesis
    unfolding facts(1) by (rule fl_max_nonfinite)
qed

lemma untouched_ratio:
  assumes er: "error_ratio_of rnd self s y0 y1 ee = Inr er"
    and er': "error_ratio_of rnd self s y0 y1 ee' = Inr er'"
    and norm: "norm_fn self = map nrm"
    and i: "i < length ee" "i < length ee'"
    and same: "ee' ! i = ee ! i"
  shows "er' ! i = er ! i"
  using error_ratio_of_nth(1) [OF er norm i(1)] error_ratio_of_nth(1) [OF er' norm i(2)] same
  by simp

text \<open>
  C5. When a step attempt with an error estimate returns, the status is per batch
  element \<open>SUCCESS\<close> where the error ratio is finite and \<open>INFINITE_NORM\<close> where it is an
  infinity or a NaN. A call whose tensors have the batch shape, with a nonzero order,
  returns: a non-finite value raises nothing. For a norm that works row by row and
  gives an infinity or a NaN for a row that has one (as the root mean square does),
  putting \<open>+Infinity\<close> into the error estimate of some batch elements makes their
  status \<open>INFINITE_NORM\<close> and leaves the status of the others as it was.
\<close>

theorem adapt_step_size_status:
  assumes est: "error_estimate step_result = Some ee"
  shows "(\<forall>accept dt_next s' status.
            adapt_step_size rnd self t0 dt y0 step_result s
              = Inr (accept, dt_next, s', status) \<longrightarrow>
            (\<exists>er sts. error_ratio_of rnd self s y0 (step_y step_result) ee = Inr er \<and>
               status = Some sts \<and> length sts = length er \<and> length accept = length er \<and>
               (\<forall>i<length er.
                  (isfinite (er ! i) \<longrightarrow> sts ! i = SUCCESS) \<and>
                  (\<not> isfinite (er ! i) \<longrightarrow> sts ! i = INFINITE_NORM)))) \<and>
         (map length (step_y step_result) = map length y0 \<and>
          map length ee = map length y0 \<and> length y0 = length dt \<and>
          (\<forall>q. length (norm_fn self q) = length q) \<and> method_order s \<noteq> 0 \<and>
          length (prev_error_ratio s) = length dt \<and>
          length (prev_prev_error_ratio s) = length dt \<longrightarrow>
          (\<exists>accept dt_next s' sts.
             adapt_step_size rnd self t0 dt y0 step_result s
               = Inr (accept, dt_next, s', Some sts))) \<and>
         (\<forall>nrm ee' injected accept dt_next s' sts accept' dt_next' s'' sts'.
            norm_fn self = map nrm \<and>
            (\<forall>row. (\<exists>v\<in>set row. \<not> isfinite v) \<longrightarrow> nrm row = PInf \<or> nrm row = NaN) \<and>
            length ee' = length ee \<and>
            (\<forall>i<length ee. if i \<in> injected then PInf \<in> set (ee' ! i)
                            else ee' ! i = ee ! i) \<and>
            adapt_step_size rnd self t0 dt y0 step_result s
              = Inr (accept, dt_next, s', Some sts) \<and>
            adapt_step_size rnd self t0 dt y0 (step_result\<lparr>error_estimate := Some ee'\<rparr>) s
              = Inr (accept', dt_next', s'', Some sts')
            \<longrightarrow> length sts' = length ee \<and>
                (\<forall>i<length ee.
                   sts' ! i = (if i \<in> injected then INFINITE_NORM else sts ! i)))"
proof (intro conjI allI impI)
  fix accept dt_next s' status
  assume run: "adapt_step_size rnd self t0 dt y0 step_result s
                 = Inr (accept, dt_next, s', status)"
  then obtain er where er: "error_ratio_of rnd self s y0 (step_y step_result) ee = Inr er"
    and acc: "accept = map (\<lambda>r. fl_lt r (Fin 1)) er"
    and st: "status = Some (map (\<lambda>r. if isfinite r then SUCCESS else INFINITE_NORM) er)"
    using est by (auto simp: adapt_step_size_Some_Inr)
  show "\<exists>er sts. error_ratio_of rnd self s y0 (step_y step_result) ee = Inr er \<and>
          status = Some sts \<and> length sts = length er \<and> length accept = length er \<and>
          (\<forall>i<length er.
             (isfinite (er ! i) \<longrightarrow> sts ! i = SUCCESS) \<and>
             (\<not> isfinite (er ! i) \<longrightarrow> sts ! i = INFINITE_NORM))"
    using er acc st by auto
next
  assume h: "map length (step_y step_result) = map length y0 \<and>
          map length ee = map length y0 \<and> length y0 = length dt \<and>
          (\<forall>q. length (norm_fn self q) = length q) \<and> method_order s \<noteq> 0 \<and>
          length (prev_error_ratio s) = length dt \<and>
          length (prev_prev_error_ratio s) = length dt"
  then obtain accept dt_next s' status where
    run: "adapt_step_size rnd self t0 dt y0 step_result s = Inr (accept, dt_next, s', status)"
    using adapt_step_size_returns [OF est, of y0 dt self s rnd t0] by blast
  then obtain sts where "status = Some sts"
    using est by (auto simp: adapt_step_size_Some_Inr)
  then show "\<exists>accept dt_next s' sts.
             adapt_step_size rnd self t0 dt y0 step_result s
               = Inr (accept, dt_next, s', Some sts)"
    using run by blast
next
  fix nrm ee' injected accept dt_next s' sts accept' dt_next' s'' sts'
  assume h: "norm_fn self = map nrm \<and>
            (\<forall>row. (\<exists>v\<in>set row. \<not> isfinite v) \<longrightarrow> nrm row = PInf \<or> nrm row = NaN) \<and>
            length ee' = length ee \<and>
            (\<forall>i<length ee. if i \<in> injected then PInf \<in> set (ee' ! i)
                            else ee' ! i = ee ! i) \<and>
            adapt_step_size rnd self t0 dt y0 step_result s
              = Inr (accept, dt_next, s', Some sts) \<and>
            adapt_step_size rnd self t0 dt y0 (step_result\<lparr>error_estimate := Some ee'\<rparr>) s
              = Inr (accept', dt_next', s'', Some sts')"
  then have norm: "norm_fn self = map nrm"
    and nonfinite: "\<forall>row. (\<exists>v\<in>set row. \<not> isfinite v) \<longrightarrow> nrm row = PInf \<or> nrm row = NaN"
    and len: "length ee' = length ee"
    and inj: "\<forall>i<length ee. if i \<in> injected then PInf \<in> set (ee' ! i)
                            else ee' ! i = ee ! i"
    and run: "adapt_step_size rnd self t0 dt y0 step_result s
              = Inr (accept, dt_next, s', Some sts)"
    and run': "adapt_step_size rnd self t0 dt y0 (step_result\<lparr>error_estimate := Some ee'\<rparr>) s
              = Inr (accept', dt_next', s'', Some sts')"
    by blast+
  obtain er where er: "error_ratio_of rnd self s y0 (step_y step_result) ee = Inr er"
    and st: "sts = map (\<lambda>r. if isfinite r then SUCCESS else INFINITE_NORM) er"
    using run est by (auto simp: adapt_step_size_Some_Inr)
  have est': "error_estimate (step_result\<lparr>error_estimate := Some ee'\<rparr>) = Some ee'"
    by simp
  obtain er' where er': "error_ratio_of rnd self s y0 (step_y step_result) ee' = Inr er'"
    and st': "sts' = map (\<lambda>r. if isfinite r then SUCCESS else INFINITE_NORM) er'"
    using run' by (auto simp: adapt_step_size_Some_Inr [OF est'])
  have l: "length er = length ee" if "0 < length ee"
    using error_ratio_of_nth(2) [OF er norm that] .
  have l': "length er' = length ee" if "0 < length ee"
    using error_ratio_of_nth(2) [OF er' norm, of 0] that len by simp
  have l0: "length er' = length ee"
  proof (cases "length ee")
    case 0
    then have "ee' = []" using len by simp
    then show ?thesis
      using er' norm 0 unfolding error_ratio_of_Inr by simp
  next
    case (Suc n)
    then show ?thesis using l' by simp
  qed
  show "length sts' = length ee"
    using st' l0 by simp
  fix i assume i: "i < length ee"
  then have i': "i < length ee'" using len by simp
  have "0 < length ee" using i by (cases ee) simp_all
  then have "length er = length ee" by (rule l)
  then have li: "i < length er" "i < length er'"
    using l0 i by simp_all
  show "sts' ! i = (if i \<in> injected then INFINITE_NORM else sts ! i)"
  proof (cases "i \<in> injected")
    case True
    then have "PInf \<in> set (ee' ! i)" using inj i by simp
    then have "\<not> isfinite (er' ! i)"
      using injected_ratio [OF er' norm nonfinite i'] by blast
    then show ?thesis using True st' li by simp
  next
    case False
    then have "ee' ! i = ee ! i" using inj i by simp
    then have "er' ! i = er ! i"
      using untouched_ratio [OF er er' norm i i'] by blast
    then show ?thesis using False st st' li by simp
  qed
qed

lemma rms_norm_rowwise: "rms_norm rnd = map (rms_row rnd)"
  by (rule ext) (simp add: rms_norm_def)

lemma rms_row_nonfinite:
  "(\<exists>v\<in>set row. \<not> isfinite v) \<Longrightarrow> rms_row rnd row = PInf \<or> rms_row rnd row = NaN"
  by (auto simp: rms_row_def)

lemma rms_row_one: "rms_row rnd [Fin a] = rnd \<bar>a\<bar>"
  by (simp add: rms_row_def)

lemma rms_row_one_special: "rms_row rnd [PInf] = PInf" "rms_row rnd [NInf] = PInf"
  "rms_row rnd [NaN] = NaN"
  by (simp_all add: rms_row_def)

lemmas example_run_simps =
  adapt_step_size_def error_ratio_of_def elementwise2_def example_controller_def
  rms_norm_def rms_row_one rms_row_one_special dt_factor_def elementwise_def Let_def
  update_state_def torch_where_def update_error_ratios_def exact_def fl_max_def fl_min_def
  torch_clamp_def

theorem adapt_step_size_status_witness:
  "\<exists>accept dt_next s'.
     adapt_step_size exact (example_controller exact) [Fin 0, Fin 0] [Fin (1/10), Fin (1/10)]
       [[Fin 0], [Fin 0]]
       \<lparr>step_y = [[Fin 0], [Fin 0]], error_estimate = Some [[Fin (1/2000000)], [PInf]]\<rparr>
       \<lparr>method_order = 4, prev_error_ratio = [Fin 1, Fin 1],
        prev_prev_error_ratio = [Fin 1, Fin 1],
        almost_zero = Fin (1/100000), dt_min = None, dt_max = None\<rparr>
     = Inr (accept, dt_next, s', Some [SUCCESS, INFINITE_NORM])"
proof -
  let ?c = "example_controller exact"
  let ?s = "\<lparr>method_order = 4, prev_error_ratio = [Fin 1, Fin 1],
        prev_prev_error_ratio = [Fin 1, Fin 1],
        almost_zero = Fin (1/100000), dt_min = None, dt_max = None\<rparr>"
  let ?r = "\<lparr>step_y = [[Fin 0], [Fin 0]],
             error_estimate = Some [[Fin (1/2000000)], [Fin (1/2000000)]]\<rparr>"
  let ?ee = "[[Fin (1/2000000)], [Fin (1/2000000)]]"
  let ?ee' = "[[Fin (1/2000000)], [PInf]]"
  have est: "error_estimate ?r = Some ?ee" by simp
  obtain accept dt_next s' where run:
    "adapt_step_size exact ?c [Fin 0, Fin 0] [Fin (1/10), Fin (1/10)] [[Fin 0], [Fin 0]] ?r ?s
       = Inr (accept, dt_next, s', Some [SUCCESS, SUCCESS])"
    by (simp add: example_run_simps)
  obtain accept' dt_next' s'' sts' where run':
    "adapt_step_size exact ?c [Fin 0, Fin 0] [Fin (1/10), Fin (1/10)] [[Fin 0], [Fin 0]]
       (?r\<lparr>error_estimate := Some ?ee'\<rparr>) ?s
       = Inr (accept', dt_next', s'', Some sts')"
    by (simp add: example_run_simps)
  have norm: "norm_fn ?c = map (rms_row exact)"
    by (simp add: example_controller_def rms_norm_rowwise)
  have nonfinite: "\<forall>row. (\<exists>v\<in>set row. \<not> isfinite v) \<longrightarrow>
                    rms_row exact row = PInf \<or> rms_row exact row = NaN"
    using rms_row_nonfinite by blast
  have inj: "\<forall>i<length ?ee. if i \<in> {1} then PInf \<in> set (?ee' ! i) else ?ee' ! i = ?ee ! i"
    by (simp add: less_Suc_eq numeral_2_eq_2)
  have len: "length ?ee' = length ?ee" by simp
  have "length sts' = length ?ee \<and>
        (\<forall>i<length ?ee. sts' ! i = (if i \<in> {1} then INFINITE_NORM
                                     else [SUCCESS, SUCCESS] ! i))"
    by (rule adapt_step_size_status [OF est, of exact ?c "[Fin 0, Fin 0]"
        "[Fin (1/10), Fin (1/10)]" "[[Fin 0], [Fin 0]]" ?s,
        THEN conjunct2, THEN conjunct2, rule_format,
        of "rms_row exact" ?ee' "{1}" accept dt_next s' "[SUCCESS, SUCCESS]"
           accept' dt_next' s'' sts'])
      (intro conjI norm nonfinite len inj run run')
  then have "length sts' = 2" "sts' ! 0 = SUCCESS" "sts' ! 1 = INFINITE_NORM"
    by (simp_all add: numeral_2_eq_2)
  then have "sts' = [SUCCESS, INFINITE_NORM]"
    by (cases sts'; cases "tl sts'") (auto simp: numeral_2_eq_2)
  then show ?thesis
    using run' by auto
qed

text \<open>
  C2. For every state and every step attempt with an error estimate: a call whose
  tensors have the batch shape, with a nonzero order, returns, whatever the values
  (infinities and NaN included). When the call returns, the new history is, per batch
  element: where \<open>accept\<close> is true, the current error ratio and the old
  \<open>prev_error_ratio\<close>; where it is false, the two old values. No other field changes.
  When every element is rejected the state is the old state, and the same call on it
  returns the same result again.
\<close>

theorem adapt_step_size_history:
  assumes est: "error_estimate step_result = Some ee"
  shows "(\<forall>accept dt_next s' status.
            adapt_step_size rnd self t0 dt y0 step_result s
              = Inr (accept, dt_next, s', status) \<longrightarrow>
            (\<exists>er. error_ratio_of rnd self s y0 (step_y step_result) ee = Inr er \<and>
               length er = length accept \<and>
               length (prev_error_ratio s) = length accept \<and>
               length (prev_prev_error_ratio s) = length accept \<and>
               length (prev_error_ratio s') = length accept \<and>
               length (prev_prev_error_ratio s') = length accept \<and>
               (\<forall>i<length accept.
                  (accept ! i \<longrightarrow>
                     prev_error_ratio s' ! i = er ! i \<and>
                     prev_prev_error_ratio s' ! i = prev_error_ratio s ! i) \<and>
                  (\<not> accept ! i \<longrightarrow>
                     prev_error_ratio s' ! i = prev_error_ratio s ! i \<and>
                     prev_prev_error_ratio s' ! i = prev_prev_error_ratio s ! i)) \<and>
               s' = s\<lparr>prev_error_ratio := prev_error_ratio s',
                       prev_prev_error_ratio := prev_prev_error_ratio s'\<rparr> \<and>
               ((\<forall>a\<in>set accept. \<not> a) \<longrightarrow>
                  s' = s \<and>
                  adapt_step_size rnd self t0 dt y0 step_result s' =
                    Inr (accept, dt_next, s', status)))) \<and>
         (map length (step_y step_result) = map length y0 \<and>
          map length ee = map length y0 \<and> length y0 = length dt \<and>
          (\<forall>q. length (norm_fn self q) = length q) \<and> method_order s \<noteq> 0 \<and>
          length (prev_error_ratio s) = length dt \<and>
          length (prev_prev_error_ratio s) = length dt \<longrightarrow>
          (\<exists>accept dt_next s' status.
             adapt_step_size rnd self t0 dt y0 step_result s
               = Inr (accept, dt_next, s', status)))"
proof (intro conjI allI impI)
  fix accept dt_next s' status
  assume run: "adapt_step_size rnd self t0 dt y0 step_result s
                 = Inr (accept, dt_next, s', status)"
  obtain er where er: "error_ratio_of rnd self s y0 (step_y step_result) ee = Inr er"
    and acc: "accept = map (\<lambda>r. fl_lt r (Fin 1)) er"
    and upd: "update_state s y0 dt (Some er) (Some accept) = Inr s'"
    using est run by (auto simp: adapt_step_size_Some_Inr)
  obtain p pp where p: "torch_where accept er (prev_error_ratio s) = Inr p"
    and pp: "torch_where accept (prev_error_ratio s) (prev_prev_error_ratio s) = Inr pp"
    and s': "s' = update_error_ratios s p pp"
    using upd by (auto simp: update_state_Some_Inr)
  have len: "length er = length accept" "length (prev_error_ratio s) = length accept"
    "length (prev_prev_error_ratio s) = length accept"
    "length (prev_error_ratio s') = length accept"
    "length (prev_prev_error_ratio s') = length accept"
    using p pp s' acc by (auto simp: torch_where_Inr update_error_ratios_def)
  have nth: "(accept ! i \<longrightarrow>
                 prev_error_ratio s' ! i = er ! i \<and>
                 prev_prev_error_ratio s' ! i = prev_error_ratio s ! i) \<and>
              (\<not> accept ! i \<longrightarrow>
                 prev_error_ratio s' ! i = prev_error_ratio s ! i \<and>
                 prev_prev_error_ratio s' ! i = prev_prev_error_ratio s ! i)"
    if i: "i < length accept" for i
    using update_state_history_nth(1,2) [OF upd i] by simp
  have frame: "s' = s\<lparr>prev_error_ratio := prev_error_ratio s',
                   prev_prev_error_ratio := prev_prev_error_ratio s'\<rparr>"
    using s' by (simp add: update_error_ratios_def)
  have rej: "s' = s \<and> adapt_step_size rnd self t0 dt y0 step_result s' =
                Inr (accept, dt_next, s', status)"
    if all: "\<forall>a\<in>set accept. \<not> a"
    using update_state_all_rejected [OF upd all] run by simp
  show "\<exists>er. error_ratio_of rnd self s y0 (step_y step_result) ee = Inr er \<and>
               length er = length accept \<and>
               length (prev_error_ratio s) = length accept \<and>
               length (prev_prev_error_ratio s) = length accept \<and>
               length (prev_error_ratio s') = length accept \<and>
               length (prev_prev_error_ratio s') = length accept \<and>
               (\<forall>i<length accept.
                  (accept ! i \<longrightarrow>
                     prev_error_ratio s' ! i = er ! i \<and>
                     prev_prev_error_ratio s' ! i = prev_error_ratio s ! i) \<and>
                  (\<not> accept ! i \<longrightarrow>
                     prev_error_ratio s' ! i = prev_error_ratio s ! i \<and>
                     prev_prev_error_ratio s' ! i = prev_prev_error_ratio s ! i)) \<and>
               s' = s\<lparr>prev_error_ratio := prev_error_ratio s',
                       prev_prev_error_ratio := prev_prev_error_ratio s'\<rparr> \<and>
               ((\<forall>a\<in>set accept. \<not> a) \<longrightarrow>
                  s' = s \<and>
                  adapt_step_size rnd self t0 dt y0 step_result s' =
                    Inr (accept, dt_next, s', status))"
    using er len nth frame rej by blast
next
  assume a: "map length (step_y step_result) = map length y0 \<and>
          map length ee = map length y0 \<and> length y0 = length dt \<and>
          (\<forall>q. length (norm_fn self q) = length q) \<and> method_order s \<noteq> 0 \<and>
          length (prev_error_ratio s) = length dt \<and>
          length (prev_prev_error_ratio s) = length dt"
  show "\<exists>accept dt_next s' status.
             adapt_step_size rnd self t0 dt y0 step_result s
               = Inr (accept, dt_next, s', status)"
    by (rule adapt_step_size_returns [OF est]) (use a in simp_all)
qed

theorem adapt_step_size_history_witness:
  "\<exists>dt_next.
     adapt_step_size exact (example_controller exact) [Fin 0, Fin 0] [Fin (1/10), Fin (1/10)]
       [[Fin 0], [Fin 0]]
       \<lparr>step_y = [[Fin 0], [Fin 0]],
        error_estimate = Some [[Fin (1/2000000)], [PInf]]\<rparr>
       \<lparr>method_order = 4, prev_error_ratio = [Fin (3/4), Fin (1/4)],
        prev_prev_error_ratio = [Fin 1, Fin (1/2)],
        almost_zero = Fin (1/100000), dt_min = None, dt_max = None\<rparr>
     = Inr ([True, False], dt_next,
         \<lparr>method_order = 4, prev_error_ratio = [Fin (1/2), Fin (1/4)],
          prev_prev_error_ratio = [Fin (3/4), Fin (1/2)],
          almost_zero = Fin (1/100000), dt_min = None, dt_max = None\<rparr>,
         Some [SUCCESS, INFINITE_NORM])"
proof -
  let ?c = "example_controller exact"
  let ?s = "\<lparr>method_order = 4, prev_error_ratio = [Fin (3/4), Fin (1/4)],
        prev_prev_error_ratio = [Fin 1, Fin (1/2)],
        almost_zero = Fin (1/100000), dt_min = None, dt_max = None\<rparr>"
  let ?ee = "[[Fin (1/2000000)], [PInf]]"
  let ?r = "\<lparr>step_y = [[Fin 0], [Fin 0]], error_estimate = Some ?ee\<rparr>"
  let ?dt = "[Fin (1/10), Fin (1/10)]"
  let ?y0 = "[[Fin 0], [Fin 0]]"
  have est: "error_estimate ?r = Some ?ee" by simp
  note c2 = adapt_step_size_history [OF est, of exact ?c "[Fin 0, Fin 0]" ?dt ?y0 ?s]
  have shape: "map length (step_y ?r) = map length ?y0 \<and>
          map length ?ee = map length ?y0 \<and> length ?y0 = length ?dt \<and>
          (\<forall>q. length (norm_fn ?c q) = length q) \<and> method_order ?s \<noteq> 0 \<and>
          length (prev_error_ratio ?s) = length ?dt \<and>
          length (prev_prev_error_ratio ?s) = length ?dt"
    by (simp add: example_controller_def rms_norm_def)
  obtain accept dt_next s' status where run:
    "adapt_step_size exact ?c [Fin 0, Fin 0] ?dt ?y0 ?r ?s = Inr (accept, dt_next, s', status)"
    using c2 [THEN conjunct2, rule_format, OF shape] by blast
  have ratio: "error_ratio_of exact ?c ?s ?y0 (step_y ?r) ?ee = Inr [Fin (1/2), PInf]"
    by (simp add: error_ratio_of_def elementwise2_def example_controller_def rms_norm_def
        rms_row_one rms_row_one_special exact_def fl_max_def)
  obtain er where er: "error_ratio_of exact ?c ?s ?y0 (step_y ?r) ?ee = Inr er"
    and hist: "\<forall>i<length accept.
                  (accept ! i \<longrightarrow>
                     prev_error_ratio s' ! i = er ! i \<and>
                     prev_prev_error_ratio s' ! i = prev_error_ratio ?s ! i) \<and>
                  (\<not> accept ! i \<longrightarrow>
                     prev_error_ratio s' ! i = prev_error_ratio ?s ! i \<and>
                     prev_prev_error_ratio s' ! i = prev_prev_error_ratio ?s ! i)"
    and lens: "length (prev_error_ratio s') = length accept"
      "length (prev_prev_error_ratio s') = length accept"
    and frame: "s' = ?s\<lparr>prev_error_ratio := prev_error_ratio s',
                       prev_prev_error_ratio := prev_prev_error_ratio s'\<rparr>"
    using c2 [THEN conjunct1, rule_format, OF run] by blast
  have er_eq: "er = [Fin (1/2), PInf]"
    using er ratio by simp
  have acc: "accept = [True, False]" and st: "status = Some [SUCCESS, INFINITE_NORM]"
    using run est er_eq ratio by (auto simp: adapt_step_size_Some_Inr)
  have h0: "prev_error_ratio s' ! 0 = Fin (1/2)" "prev_prev_error_ratio s' ! 0 = Fin (3/4)"
    and h1: "prev_error_ratio s' ! 1 = Fin (1/4)" "prev_prev_error_ratio s' ! 1 = Fin (1/2)"
    using hist acc er_eq by (auto simp: less_Suc_eq)
  have two: "xs = [xs ! 0, xs ! 1]" if l: "length xs = 2" for xs :: "fl list"
    using l by (cases xs; cases "tl xs") (auto simp: numeral_2_eq_2)
  have "prev_error_ratio s' = [Fin (1/2), Fin (1/4)]"
    using two [of "prev_error_ratio s'"] lens(1) acc h0 h1 by simp
  moreover have "prev_prev_error_ratio s' = [Fin (3/4), Fin (1/2)]"
    using two [of "prev_prev_error_ratio s'"] lens(2) acc h0 h1 by simp
  ultimately have "s' = \<lparr>method_order = 4, prev_error_ratio = [Fin (1/2), Fin (1/4)],
          prev_prev_error_ratio = [Fin (3/4), Fin (1/2)],
          almost_zero = Fin (1/100000), dt_min = None, dt_max = None\<rparr>"
    using frame by simp
  then show ?thesis
    using run acc st by simp
qed

text \<open>
  C3. For every step attempt with an error estimate: a call whose tensors have the
  batch shape, with a nonzero order, returns, whatever the values. When the call
  returns, \<open>accept\<close> is, per batch element, \<open>error_ratio < 1\<close> with a strict inequality:
  an element with a ratio of 1 or more (\<open>+Infinity\<close> included) is rejected, an element
  with a ratio between 0 and 1 is accepted. The error ratio is
  \<open>max(norm(|error_estimate| / (atol + rtol * max(|y0|, |y1|))), almost_zero)\<close>.
\<close>

theorem adapt_step_size_accept:
  assumes est: "error_estimate step_result = Some ee"
  shows "(\<forall>accept dt_next s' status.
            adapt_step_size rnd self t0 dt y0 step_result s
              = Inr (accept, dt_next, s', status) \<longrightarrow>
            (\<exists>er. er = map (\<lambda>r. fl_max r (almost_zero s))
                     (norm_fn self
                        (map2 (map2 (fl_div rnd)) (map (map fl_abs) ee)
                           (map2 (map2 (\<lambda>a b. fl_add rnd (atol self)
                                     (fl_mul rnd (rtol self) (fl_max (fl_abs a) (fl_abs b)))))
                              y0 (step_y step_result)))) \<and>
               error_ratio_of rnd self s y0 (step_y step_result) ee = Inr er \<and>
               accept = map (\<lambda>r. fl_lt r (Fin 1)) er \<and>
               (\<forall>i<length er.
                  (accept ! i \<longleftrightarrow> fl_lt (er ! i) (Fin 1)) \<and>
                  (fl_le (Fin 1) (er ! i) \<longrightarrow> \<not> accept ! i) \<and>
                  (fl_lt (Fin 0) (er ! i) \<and> fl_lt (er ! i) (Fin 1) \<longrightarrow> accept ! i)))) \<and>
         (map length (step_y step_result) = map length y0 \<and>
          map length ee = map length y0 \<and> length y0 = length dt \<and>
          (\<forall>q. length (norm_fn self q) = length q) \<and> method_order s \<noteq> 0 \<and>
          length (prev_error_ratio s) = length dt \<and>
          length (prev_prev_error_ratio s) = length dt \<longrightarrow>
          (\<exists>accept dt_next s' status.
             adapt_step_size rnd self t0 dt y0 step_result s
               = Inr (accept, dt_next, s', status)))"
proof (intro conjI allI impI)
  fix accept dt_next s' status
  assume run: "adapt_step_size rnd self t0 dt y0 step_result s
                 = Inr (accept, dt_next, s', status)"
  obtain er where er: "error_ratio_of rnd self s y0 (step_y step_result) ee = Inr er"
    and acc: "accept = map (\<lambda>r. fl_lt r (Fin 1)) er"
    using est run by (auto simp: adapt_step_size_Some_Inr)
  have formula: "er = map (\<lambda>r. fl_max r (almost_zero s))
                     (norm_fn self
                        (map2 (map2 (fl_div rnd)) (map (map fl_abs) ee)
                           (map2 (map2 (\<lambda>a b. fl_add rnd (atol self)
                                     (fl_mul rnd (rtol self) (fl_max (fl_abs a) (fl_abs b)))))
                              y0 (step_y step_result))))"
    using er unfolding error_ratio_of_Inr by simp
  have "(accept ! i \<longleftrightarrow> fl_lt (er ! i) (Fin 1)) \<and>
        (fl_le (Fin 1) (er ! i) \<longrightarrow> \<not> accept ! i) \<and>
        (fl_lt (Fin 0) (er ! i) \<and> fl_lt (er ! i) (Fin 1) \<longrightarrow> accept ! i)"
    if i: "i < length er" for i
    using i acc fl_lt_not_le [of "er ! i" "Fin 1"] by auto
  then show "\<exists>er. er = map (\<lambda>r. fl_max r (almost_zero s))
                     (norm_fn self
                        (map2 (map2 (fl_div rnd)) (map (map fl_abs) ee)
                           (map2 (map2 (\<lambda>a b. fl_add rnd (atol self)
                                     (fl_mul rnd (rtol self) (fl_max (fl_abs a) (fl_abs b)))))
                              y0 (step_y step_result)))) \<and>
               error_ratio_of rnd self s y0 (step_y step_result) ee = Inr er \<and>
               accept = map (\<lambda>r. fl_lt r (Fin 1)) er \<and>
               (\<forall>i<length er.
                  (accept ! i \<longleftrightarrow> fl_lt (er ! i) (Fin 1)) \<and>
                  (fl_le (Fin 1) (er ! i) \<longrightarrow> \<not> accept ! i) \<and>
                  (fl_lt (Fin 0) (er ! i) \<and> fl_lt (er ! i) (Fin 1) \<longrightarrow> accept ! i))"
    using er acc formula by blast
next
  assume a: "map length (step_y step_result) = map length y0 \<and>
          map length ee = map length y0 \<and> length y0 = length dt \<and>
          (\<forall>q. length (norm_fn self q) = length q) \<and> method_order s \<noteq> 0 \<and>
          length (prev_error_ratio s) = length dt \<and>
          length (prev_prev_error_ratio s) = length dt"
  show "\<exists>accept dt_next s' status.
             adapt_step_size rnd self t0 dt y0 step_result s
               = Inr (accept, dt_next, s', status)"
    by (rule adapt_step_size_returns [OF est]) (use a in simp_all)
qed

theorem adapt_step_size_accept_witness:
  "\<exists>dt_next s' status.
     adapt_step_size exact (example_controller exact) [Fin 0, Fin 0, Fin 0]
       [Fin (1/10), Fin (1/10), Fin (1/10)] [[Fin 0], [Fin 0], [Fin 0]]
       \<lparr>step_y = [[Fin 0], [Fin 0], [Fin 0]],
        error_estimate = Some [[Fin (1/1000000)], [Fin (1/2000000)], [PInf]]\<rparr>
       \<lparr>method_order = 4, prev_error_ratio = [Fin 1, Fin 1, Fin 1],
        prev_prev_error_ratio = [Fin 1, Fin 1, Fin 1],
        almost_zero = Fin (1/100000), dt_min = None, dt_max = None\<rparr>
     = Inr ([False, True, False], dt_next, s', status) \<and>
     error_ratio_of exact (example_controller exact)
       \<lparr>method_order = 4, prev_error_ratio = [Fin 1, Fin 1, Fin 1],
        prev_prev_error_ratio = [Fin 1, Fin 1, Fin 1],
        almost_zero = Fin (1/100000), dt_min = None, dt_max = None\<rparr>
       [[Fin 0], [Fin 0], [Fin 0]] [[Fin 0], [Fin 0], [Fin 0]]
       [[Fin (1/1000000)], [Fin (1/2000000)], [PInf]] = Inr [Fin 1, Fin (1/2), PInf]"
proof -
  let ?c = "example_controller exact"
  let ?s = "\<lparr>method_order = 4, prev_error_ratio = [Fin 1, Fin 1, Fin 1],
        prev_prev_error_ratio = [Fin 1, Fin 1, Fin 1],
        almost_zero = Fin (1/100000), dt_min = None, dt_max = None\<rparr>"
  let ?ee = "[[Fin (1/1000000)], [Fin (1/2000000)], [PInf]]"
  let ?y0 = "[[Fin 0], [Fin 0], [Fin 0]]"
  let ?r = "\<lparr>step_y = ?y0, error_estimate = Some ?ee\<rparr>"
  let ?dt = "[Fin (1/10), Fin (1/10), Fin (1/10)]"
  let ?t0 = "[Fin 0, Fin 0, Fin 0]"
  have est: "error_estimate ?r = Some ?ee" by simp
  note c3 = adapt_step_size_accept [OF est, of exact ?c ?t0 ?dt ?y0 ?s]
  have shape: "map length (step_y ?r) = map length ?y0 \<and>
          map length ?ee = map length ?y0 \<and> length ?y0 = length ?dt \<and>
          (\<forall>q. length (norm_fn ?c q) = length q) \<and> method_order ?s \<noteq> 0 \<and>
          length (prev_error_ratio ?s) = length ?dt \<and>
          length (prev_prev_error_ratio ?s) = length ?dt"
    by (simp add: example_controller_def rms_norm_def)
  obtain accept dt_next s' status where run:
    "adapt_step_size exact ?c ?t0 ?dt ?y0 ?r ?s = Inr (accept, dt_next, s', status)"
    using c3 [THEN conjunct2, rule_format, OF shape] by blast
  have ratio: "error_ratio_of exact ?c ?s ?y0 ?y0 ?ee = Inr [Fin 1, Fin (1/2), PInf]"
    by (simp add: error_ratio_of_def elementwise2_def example_controller_def rms_norm_def
        rms_row_one rms_row_one_special exact_def fl_max_def)
  obtain er where er: "error_ratio_of exact ?c ?s ?y0 (step_y ?r) ?ee = Inr er"
    and acc: "accept = map (\<lambda>r. fl_lt r (Fin 1)) er"
    using c3 [THEN conjunct1, rule_format, OF run] by blast
  have "er = [Fin 1, Fin (1/2), PInf]"
    using er ratio by simp
  then have "accept = [False, True, False]"
    using acc by simp
  then show ?thesis
    using run ratio by simp
qed

lemma adapt_step_size_frame:
  assumes "adapt_step_size rnd self t0 dt y0 step_result s = Inr (accept, dt_next, s', status)"
  shows "method_order s' = method_order s \<and> almost_zero s' = almost_zero s \<and>
         dt_min s' = dt_min s \<and> dt_max s' = dt_max s"
proof (cases "error_estimate step_result")
  case None
  then show ?thesis
    using assms by (auto simp: adapt_step_size_None)
next
  case (Some ee)
  then obtain er where "update_state s y0 dt (Some er) (Some accept) = Inr s'"
    using assms by (auto simp: adapt_step_size_Some_Inr)
  then show ?thesis
    by (auto simp: update_state_Some_Inr update_error_ratios_def)
qed

lemma reachable_frame:
  assumes "reachable rnd self az order problem dt_min' dt_max' s"
  shows "method_order s = order \<and> almost_zero s = az \<and>
         dt_min s = dt_min' \<and> dt_max s = dt_max'"
  using assms
proof (induction rule: reachable.induct)
  case reachable_init
  show ?case
    by (simp add: initial_state_def PIDState_default_def)
next
  case (reachable_step s t0 dt y0 step_result accept dt_next s' status)
  then show ?case
    using adapt_step_size_frame by metis
next
  case (reachable_merge current previous running s)
  then show ?case
    by (auto simp: merge_states_Inr update_error_ratios_def)
qed

text \<open>
  C6. For two states \<open>current\<close> and \<open>previous\<close> of one solve and a mask of their batch
  shape, \<open>merge_states\<close> returns a state whose history is, at each batch element, the
  one of \<open>current\<close> where the mask is true and the one of \<open>previous\<close> where it is false.
  With an all-true mask the result is \<open>current\<close>, with an all-false mask it is
  \<open>previous\<close>. The result at an element is the same for any other pair of states that
  agrees with this one at that element.
\<close>

theorem merge_states_select:
  assumes "reachable rnd self az order problem dt_min' dt_max' current"
    and "reachable rnd self az order problem dt_min' dt_max' previous"
    and "length (prev_error_ratio current) = length running"
    and "length (prev_prev_error_ratio current) = length running"
    and "length (prev_error_ratio previous) = length running"
    and "length (prev_prev_error_ratio previous) = length running"
  shows "\<exists>s. merge_states running current previous = Inr s \<and>
           length (prev_error_ratio s) = length running \<and>
           length (prev_prev_error_ratio s) = length running \<and>
           (\<forall>i<length running.
              prev_error_ratio s ! i =
                (if running ! i then prev_error_ratio current ! i
                 else prev_error_ratio previous ! i) \<and>
              prev_prev_error_ratio s ! i =
                (if running ! i then prev_prev_error_ratio current ! i
                 else prev_prev_error_ratio previous ! i)) \<and>
           ((\<forall>b\<in>set running. b) \<longrightarrow> s = current) \<and>
           ((\<forall>b\<in>set running. \<not> b) \<longrightarrow> s = previous) \<and>
           (\<forall>current' previous' s' i.
              merge_states running current' previous' = Inr s' \<and> i < length running \<and>
              prev_error_ratio current' ! i = prev_error_ratio current ! i \<and>
              prev_prev_error_ratio current' ! i = prev_prev_error_ratio current ! i \<and>
              prev_error_ratio previous' ! i = prev_error_ratio previous ! i \<and>
              prev_prev_error_ratio previous' ! i = prev_prev_error_ratio previous ! i
              \<longrightarrow> prev_error_ratio s' ! i = prev_error_ratio s ! i \<and>
                  prev_prev_error_ratio s' ! i = prev_prev_error_ratio s ! i)"
proof -
  obtain s where s: "merge_states running current previous = Inr s"
    and len: "length (prev_error_ratio s) = length running"
      "length (prev_prev_error_ratio s) = length running"
    and nth: "\<forall>i<length running.
      prev_error_ratio s ! i =
        (if running ! i then prev_error_ratio current ! i
         else prev_error_ratio previous ! i) \<and>
      prev_prev_error_ratio s ! i =
        (if running ! i then prev_prev_error_ratio current ! i
         else prev_prev_error_ratio previous ! i)"
    and all_true: "(\<forall>b\<in>set running. b) \<longrightarrow> s = current"
    and all_false: "(\<forall>b\<in>set running. \<not> b) \<longrightarrow>
              s = update_error_ratios current (prev_error_ratio previous)
                    (prev_prev_error_ratio previous)"
    using merge_states_select_fields [OF assms(3-6)] by blast
  have fields: "method_order previous = method_order current"
    "almost_zero previous = almost_zero current"
    "dt_min previous = dt_min current" "dt_max previous = dt_max current"
    using reachable_frame [OF assms(1)] reachable_frame [OF assms(2)] by simp_all
  have same: "(\<forall>b\<in>set running. \<not> b) \<longrightarrow> s = previous"
    using all_false fields by (simp add: update_error_ratios_def)
  have indep: "prev_error_ratio s' ! i = prev_error_ratio s ! i \<and>
               prev_prev_error_ratio s' ! i = prev_prev_error_ratio s ! i"
    if m: "merge_states running current' previous' = Inr s'" and i: "i < length running"
      and eqs: "prev_error_ratio current' ! i = prev_error_ratio current ! i"
        "prev_prev_error_ratio current' ! i = prev_prev_error_ratio current ! i"
        "prev_error_ratio previous' ! i = prev_error_ratio previous ! i"
        "prev_prev_error_ratio previous' ! i = prev_prev_error_ratio previous ! i"
    for current' previous' s' i
    using merge_states_history_nth [OF m i] merge_states_history_nth [OF s i] eqs
    by simp
  show ?thesis
    using s len nth all_true same indep by blast
qed

lemma example_reachable_step:
  "reachable exact (example_controller exact) (Fin (1/100000)) 4 \<lparr>batch_size = 2\<rparr> None
     (Some (Fin 1))
     \<lparr>method_order = 4, prev_error_ratio = [Fin (1/2), Fin 1],
      prev_prev_error_ratio = [Fin 1, Fin 1],
      almost_zero = Fin (1/100000), dt_min = None, dt_max = Some (Fin 1)\<rparr>"
proof -
  let ?c = "example_controller exact"
  let ?s0 = "initial_state (Fin (1/100000)) ?c 4 \<lparr>batch_size = 2\<rparr> None (Some (Fin 1))"
  have "\<exists>dt_next status.
     adapt_step_size exact ?c [Fin 0, Fin 0] [Fin (1/10), Fin (1/10)] [[Fin 0], [Fin 0]]
       \<lparr>step_y = [[Fin 0], [Fin 0]],
        error_estimate = Some [[Fin (1/2000000)], [PInf]]\<rparr> ?s0
     = Inr ([True, False], dt_next,
         \<lparr>method_order = 4, prev_error_ratio = [Fin (1/2), Fin 1],
          prev_prev_error_ratio = [Fin 1, Fin 1],
          almost_zero = Fin (1/100000), dt_min = None, dt_max = Some (Fin 1)\<rparr>, status)"
    by (simp add: example_run_simps initial_state_def PIDState_default_def numeral_2_eq_2)
  then show ?thesis
    using reachable_step [OF reachable_init] by blast
qed

theorem merge_states_select_witness:
  "merge_states [False, False]
     \<lparr>method_order = 4, prev_error_ratio = [Fin (1/2), Fin 1],
      prev_prev_error_ratio = [Fin 1, Fin 1],
      almost_zero = Fin (1/100000), dt_min = None, dt_max = Some (Fin 1)\<rparr>
     (initial_state (Fin (1/100000)) (example_controller exact) 4 \<lparr>batch_size = 2\<rparr> None
        (Some (Fin 1)))
   = Inr (initial_state (Fin (1/100000)) (example_controller exact) 4 \<lparr>batch_size = 2\<rparr> None
        (Some (Fin 1))) \<and>
   merge_states [True, False]
     \<lparr>method_order = 4, prev_error_ratio = [Fin (1/2), Fin 1],
      prev_prev_error_ratio = [Fin 1, Fin 1],
      almost_zero = Fin (1/100000), dt_min = None, dt_max = Some (Fin 1)\<rparr>
     (initial_state (Fin (1/100000)) (example_controller exact) 4 \<lparr>batch_size = 2\<rparr> None
        (Some (Fin 1)))
   = Inr \<lparr>method_order = 4, prev_error_ratio = [Fin (1/2), Fin 1],
      prev_prev_error_ratio = [Fin 1, Fin 1],
      almost_zero = Fin (1/100000), dt_min = None, dt_max = Some (Fin 1)\<rparr>"
proof -
  let ?c = "example_controller exact"
  let ?cur = "\<lparr>method_order = 4, prev_error_ratio = [Fin (1/2), Fin 1],
      prev_prev_error_ratio = [Fin 1, Fin 1],
      almost_zero = Fin (1/100000), dt_min = None, dt_max = Some (Fin 1)\<rparr>"
  let ?prev = "initial_state (Fin (1/100000)) ?c 4 \<lparr>batch_size = 2\<rparr> None (Some (Fin 1))"
  have cur: "reachable exact ?c (Fin (1/100000)) 4 \<lparr>batch_size = 2\<rparr> None (Some (Fin 1)) ?cur"
    by (rule example_reachable_step)
  have prev: "reachable exact ?c (Fin (1/100000)) 4 \<lparr>batch_size = 2\<rparr> None (Some (Fin 1)) ?prev"
    by (rule reachable_init)
  have l: "length (prev_error_ratio ?cur) = length [False, False]"
    "length (prev_prev_error_ratio ?cur) = length [False, False]"
    "length (prev_error_ratio ?prev) = length [False, False]"
    "length (prev_prev_error_ratio ?prev) = length [False, False]"
    by (simp_all add: initial_state_def PIDState_default_def)
  have "merge_states [False, False] ?cur ?prev = Inr ?prev"
    using merge_states_select [OF cur prev l] by auto
  moreover have "merge_states [True, False] ?cur ?prev = Inr ?cur"
    by (simp add: merge_states_def torch_where_def update_error_ratios_def initial_state_def
        PIDState_default_def numeral_2_eq_2)
  ultimately show ?thesis
    by (rule conjI)
qed

subsection \<open>The history of a solve\<close>

lemma accepted_floor:
  assumes p: "torch_where (map (\<lambda>r. fl_lt r (Fin 1)) er) er old = Inr p"
    and er: "\<forall>x\<in>set er. isnan x \<or> fl_le az x"
    and old: "\<forall>x\<in>set old. fl_le az x"
  shows "\<forall>x\<in>set p. fl_le az x"
proof
  fix x assume "x \<in> set p"
  then obtain i where i: "i < length p" and x: "x = p ! i"
    by (auto simp: in_set_conv_nth)
  have len: "length p = length er" "length old = length er"
    using p by (auto simp: torch_where_Inr)
  have nth: "p ! i = (if fl_lt (er ! i) (Fin 1) then er ! i else old ! i)"
    using torch_where_nth [OF p] i len by simp
  show "fl_le az x"
  proof (cases "fl_lt (er ! i) (Fin 1)")
    case True
    then have "\<not> isnan (er ! i)"
      using fl_lt_not_nan by blast
    moreover have "er ! i \<in> set er"
      using i len by simp
    ultimately show ?thesis
      using er nth x True by auto
  next
    case False
    have "old ! i \<in> set old"
      using i len by simp
    then show ?thesis
      using old nth x False by auto
  qed
qed

lemma reachable_floor:
  assumes "a \<le> 1" and "reachable rnd self (Fin a) order problem dt_min' dt_max' s"
  shows "almost_zero s = Fin a \<and>
         (\<forall>x\<in>set (prev_error_ratio s). fl_le (Fin a) x) \<and>
         (\<forall>x\<in>set (prev_prev_error_ratio s). fl_le (Fin a) x)"
  using assms(2)
proof (induction rule: reachable.induct)
  case reachable_init
  then show ?case
    using assms(1) by (simp add: initial_state_def PIDState_default_def)
next
  case (reachable_step s t0 dt y0 step_result accept dt_next s' status)
  show ?case
  proof (cases "error_estimate step_result")
    case None
    then have "s' = s\<lparr>prev_error_ratio := replicate (length dt) (Fin 1),
                       prev_prev_error_ratio := prev_error_ratio s\<rparr>"
      using reachable_step.hyps(2) adapt_step_size_None [OF None, of rnd self t0 dt y0 s]
      by auto
    then show ?thesis
      using reachable_step.IH assms(1) by simp
  next
    case (Some ee)
    then obtain er where er: "error_ratio_of rnd self s y0 (step_y step_result) ee = Inr er"
      and acc: "accept = map (\<lambda>r. fl_lt r (Fin 1)) er"
      and upd: "update_state s y0 dt (Some er) (Some accept) = Inr s'"
      using reachable_step.hyps(2) by (auto simp: adapt_step_size_Some_Inr)
    obtain p pp where p: "torch_where accept er (prev_error_ratio s) = Inr p"
      and pp: "torch_where accept (prev_error_ratio s) (prev_prev_error_ratio s) = Inr pp"
      and s': "s' = update_error_ratios s p pp"
      using upd by (auto simp: update_state_Some_Inr)
    have "\<forall>x\<in>set er. isnan x \<or> fl_le (Fin a) x"
      using error_ratio_of_floor [OF er] reachable_step.IH by simp
    then have "\<forall>x\<in>set p. fl_le (Fin a) x"
      using accepted_floor [OF p [unfolded acc]] reachable_step.IH by blast
    moreover have "\<forall>x\<in>set pp. fl_le (Fin a) x"
      using torch_where_set [OF pp] reachable_step.IH by auto
    ultimately show ?thesis
      using s' reachable_step.IH by (simp add: update_error_ratios_def)
  qed
next
  case (reachable_merge current previous running s)
  obtain p pp where
    p: "torch_where running (prev_error_ratio current) (prev_error_ratio previous) = Inr p"
    and pp: "torch_where running (prev_prev_error_ratio current)
               (prev_prev_error_ratio previous) = Inr pp"
    and s: "s = update_error_ratios current p pp"
    using reachable_merge.hyps(3) by (auto simp: merge_states_Inr)
  have "\<forall>x\<in>set p. fl_le (Fin a) x" "\<forall>x\<in>set pp. fl_le (Fin a) x"
    using torch_where_set [OF p] torch_where_set [OF pp] reachable_merge.IH by auto
  then show ?case
    using s reachable_merge.IH by (simp add: update_error_ratios_def)
qed

lemma floor_nonzero: "0 < a \<Longrightarrow> isnan x \<or> fl_le (Fin a) x \<Longrightarrow> x \<noteq> Fin 0"
  by (cases x) auto

text \<open>
  C8, the error ratio below the floor. \<open>torch.maximum\<close> gives NaN when one of its
  arguments is NaN: for an error estimate that is NaN the error ratio of
  \<open>adapt_step_size\<close> is NaN, which is not at least \<open>almost_zero\<close>; the element is
  rejected with the status \<open>INFINITE_NORM\<close> and its next step size is NaN.
\<close>

theorem error_ratio_floor_counterexample:
  "error_ratio_of exact (example_controller exact)
     \<lparr>method_order = 4, prev_error_ratio = [Fin 1], prev_prev_error_ratio = [Fin 1],
      almost_zero = Fin (1/100000), dt_min = None, dt_max = None\<rparr>
     [[Fin 0]] [[Fin 0]] [[NaN]] = Inr [NaN] \<and>
   \<not> fl_le (Fin (1/100000)) NaN \<and>
   adapt_step_size exact (example_controller exact) [Fin 0] [Fin (1/10)] [[Fin 0]]
     \<lparr>step_y = [[Fin 0]], error_estimate = Some [[NaN]]\<rparr>
     \<lparr>method_order = 4, prev_error_ratio = [Fin 1], prev_prev_error_ratio = [Fin 1],
      almost_zero = Fin (1/100000), dt_min = None, dt_max = None\<rparr>
   = Inr ([False], [NaN],
       \<lparr>method_order = 4, prev_error_ratio = [Fin 1], prev_prev_error_ratio = [Fin 1],
        almost_zero = Fin (1/100000), dt_min = None, dt_max = None\<rparr>,
       Some [INFINITE_NORM])"
  by (simp add: example_run_simps)

text \<open>
  C8. The error ratio of \<open>adapt_step_size\<close> is
  \<open>max(norm(error / error_bounds), almost_zero)\<close>, so it is NaN or at least the
  \<open>almost_zero\<close> of the state, whatever the state. For a floor \<open>0 < az \<le> 1\<close>, every state
  of a solve (the initial state, the state after a step attempt that is accepted,
  rejected or has no error estimate, and a merge of two such states) has
  \<open>almost_zero = az\<close> and both history ratios at least \<open>az\<close> for every batch element: a
  ratio that is NaN is never accepted. So no base that \<open>dt_factor\<close> raises to a power is
  zero: no power divides by zero.
\<close>

theorem history_floor:
  assumes "0 < a" and "a \<le> 1"
    and "reachable rnd self (Fin a) order problem dt_min' dt_max' s"
  shows "almost_zero s = Fin a \<and>
         (\<forall>x\<in>set (prev_error_ratio s). fl_le (Fin a) x) \<and>
         (\<forall>x\<in>set (prev_prev_error_ratio s). fl_le (Fin a) x) \<and>
         (\<forall>s0 y0 y1 ee er.
            error_ratio_of rnd self s0 y0 y1 ee = Inr er \<longrightarrow>
            (\<forall>x\<in>set er. isnan x \<or> fl_le (almost_zero s0) x)) \<and>
         (\<forall>y0 y1 ee er.
            error_ratio_of rnd self s y0 y1 ee = Inr er \<longrightarrow>
            (\<forall>x\<in>set er \<union> set (prev_error_ratio s) \<union> set (prev_prev_error_ratio s).
               x \<noteq> Fin 0))"
proof -
  have inv: "almost_zero s = Fin a" "\<forall>x\<in>set (prev_error_ratio s). fl_le (Fin a) x"
    "\<forall>x\<in>set (prev_prev_error_ratio s). fl_le (Fin a) x"
    using reachable_floor [OF assms(2,3)] by simp_all
  have floor: "\<forall>s0 y0 y1 ee er.
            error_ratio_of rnd self s0 y0 y1 ee = Inr er \<longrightarrow>
            (\<forall>x\<in>set er. isnan x \<or> fl_le (almost_zero s0) x)"
    using error_ratio_of_floor by blast
  have bases: "\<forall>x\<in>set er \<union> set (prev_error_ratio s) \<union> set (prev_prev_error_ratio s).
               x \<noteq> Fin 0"
    if er: "error_ratio_of rnd self s y0 y1 ee = Inr er" for y0 y1 ee er
  proof -
    have "\<forall>x\<in>set er. isnan x \<or> fl_le (Fin a) x"
      using error_ratio_of_floor [OF er] inv(1) by simp
    then show ?thesis
      using inv(2,3) floor_nonzero [OF assms(1)] by blast
  qed
  from inv(1) inv(2) inv(3) floor bases show ?thesis
    by (intro conjI allI impI) blast+
qed

theorem history_floor_witness:
  "reachable exact (example_controller exact) (Fin (1/100000)) 4 \<lparr>batch_size = 2\<rparr> None
     (Some (Fin 1))
     \<lparr>method_order = 4, prev_error_ratio = [Fin (1/2), Fin 1],
      prev_prev_error_ratio = [Fin 1, Fin 1],
      almost_zero = Fin (1/100000), dt_min = None, dt_max = Some (Fin 1)\<rparr> \<and>
   error_ratio_of exact (example_controller exact)
     \<lparr>method_order = 4, prev_error_ratio = [Fin (1/2), Fin 1],
      prev_prev_error_ratio = [Fin 1, Fin 1],
      almost_zero = Fin (1/100000), dt_min = None, dt_max = Some (Fin 1)\<rparr>
     [[Fin 0], [Fin 0]] [[Fin 0], [Fin 0]] [[Fin (1/2000000)], [Fin 0]]
   = Inr [Fin (1/2), Fin (1/100000)] \<and>
   Fin (1/100000) \<noteq> Fin 0 \<and> Fin (1/2) \<noteq> Fin 0"
proof -
  let ?c = "example_controller exact"
  let ?s1 = "\<lparr>method_order = 4, prev_error_ratio = [Fin (1/2), Fin 1],
      prev_prev_error_ratio = [Fin 1, Fin 1],
      almost_zero = Fin (1/100000), dt_min = None, dt_max = Some (Fin 1)\<rparr>"
  have r1: "reachable exact ?c (Fin (1/100000)) 4 \<lparr>batch_size = 2\<rparr> None (Some (Fin 1)) ?s1"
    by (rule example_reachable_step)
  have ratio: "error_ratio_of exact ?c ?s1 [[Fin 0], [Fin 0]] [[Fin 0], [Fin 0]]
                 [[Fin (1/2000000)], [Fin 0]] = Inr [Fin (1/2), Fin (1/100000)]"
    by (simp add: error_ratio_of_def elementwise2_def example_controller_def rms_norm_def
        rms_row_one rms_row_one_special exact_def fl_max_def)
  have az: "(0::real) < 1/100000" "(1/100000 :: real) \<le> 1"
    by simp_all
  have "\<forall>x\<in>set [Fin (1/2), Fin (1/100000)] \<union> set (prev_error_ratio ?s1)
            \<union> set (prev_prev_error_ratio ?s1). x \<noteq> Fin 0"
    using history_floor [OF az r1] ratio by blast
  then have "Fin (1/100000) \<noteq> Fin 0 \<and> Fin (1/2) \<noteq> Fin 0"
    by simp
  then show ?thesis
    using r1 ratio by blast
qed

subsection \<open>The initial step\<close>


































end
